theory Spec2Isabelle
  imports Main "HOL-Library.Word" "HOL-Library.Signed_Division"
begin

unbundle bit_operations_syntax

section \<open>Numeric conversion layer\<close>

text \<open>
  The exporter works on Qt's fixed-width integers.  \<open>qint32\<close> is a 32-bit word read
  with \<open>sint\<close>, \<open>quint16\<close> a 16-bit word read with \<open>unat\<close>.  C++ integer division
  truncates towards zero; on \<open>int\<close> this is \<open>sdiv\<close>, lifted here to words.
\<close>

type_synonym qint32 = "32 word"
type_synonym quint16 = "16 word"
type_synonym byte = "8 word"

definition word_sdiv :: "'a::len word \<Rightarrow> 'a word \<Rightarrow> 'a word" where
  "word_sdiv a b = word_of_int (sint a sdiv sint b)"

text \<open>
  \<^verbatim>\<open>constexpr qint32 convertPointMember(qint32 value)
  { return (value < -5)
      ? qint32(0x80000000u | ((0x7fffffu & quint32((value-4)/10)) << 8))
      : qint32((0x7fffffu & quint32((value+5)/10)) << 8); }\<close>
\<close>

definition convertPointMember :: "qint32 \<Rightarrow> qint32" where
  "convertPointMember v =
     (if v <s -5
      then 0x80000000 OR push_bit 8 (0x7fffff AND word_sdiv (v - 4) 10)
      else push_bit 8 (0x7fffff AND word_sdiv (v + 5) 10))"

text \<open>\<^verbatim>\<open>convertPoint(x, y)\<close> returns \<^verbatim>\<open>{ convertPointMember(x), convertPointMember(-y) }\<close>.\<close>

definition convertPoint :: "qint32 \<times> qint32 \<Rightarrow> qint32 \<times> qint32" where
  "convertPoint c = (convertPointMember (fst c), convertPointMember (- snd c))"


section \<open>Palette quantizer\<close>

text \<open>
  A \<^verbatim>\<open>QRgb\<close> with full alpha (both functions assert \<^verbatim>\<open>qAlpha(rgb) == 255\<close>) is given by
  its red, green and blue channels, each in \<open>0..255\<close>.  Distances are C++ \<^verbatim>\<open>int\<close>s far
  below \<open>2^31\<close>, so they are computed on \<open>int\<close>.
\<close>

type_synonym rgb = "int \<times> int \<times> int"
type_synonym hsv = "int \<times> int \<times> int"

text \<open>The lambda \<^verbatim>\<open>sq\<close> of both functions.\<close>

definition sq :: "int \<Rightarrow> int" where
  "sq n = n * n"

subsection \<open>The 125-colour palette, \<^verbatim>\<open>getPaletteColorV9\<close>\<close>

definition paletteV9 :: "rgb list" where
  "paletteV9 =
     [
      (0, 0, 0), (0, 0, 64), (0, 0, 128), (0, 0, 192), (0, 0, 255),
      (0, 64, 0), (0, 64, 64), (0, 64, 128), (0, 64, 192), (0, 64, 255),
      (0, 128, 0), (0, 128, 64), (0, 128, 128), (0, 128, 192), (0, 128, 255),
      (0, 192, 0), (0, 192, 64), (0, 192, 128), (0, 192, 192), (0, 192, 255),
      (0, 255, 0), (0, 255, 64), (0, 255, 128), (0, 255, 192), (0, 255, 255),
      (64, 0, 0), (64, 0, 64), (64, 0, 128), (64, 0, 192), (64, 0, 255),
      (64, 64, 0), (64, 64, 64), (64, 64, 128), (64, 64, 192), (64, 64, 255),
      (64, 128, 0), (64, 128, 64), (64, 128, 128), (64, 128, 192), (64, 128, 255),
      (64, 192, 0), (64, 192, 64), (64, 192, 128), (64, 192, 192), (64, 192, 255),
      (64, 255, 0), (64, 255, 64), (64, 255, 128), (64, 255, 192), (64, 255, 255),
      (128, 0, 0), (128, 0, 64), (128, 0, 128), (128, 0, 192), (128, 0, 255),
      (128, 64, 0), (128, 64, 64), (128, 64, 128), (128, 64, 192), (128, 64, 255),
      (128, 128, 0), (128, 128, 64), (128, 128, 128), (128, 128, 192), (128, 128, 255),
      (128, 192, 0), (128, 192, 64), (128, 192, 128), (128, 192, 192), (128, 192, 255),
      (128, 255, 0), (128, 255, 64), (128, 255, 128), (128, 255, 192), (128, 255, 255),
      (192, 0, 0), (192, 0, 64), (192, 0, 128), (192, 0, 192), (192, 0, 255),
      (192, 64, 0), (192, 64, 64), (192, 64, 128), (192, 64, 192), (192, 64, 255),
      (192, 128, 0), (192, 128, 64), (192, 128, 128), (192, 128, 192), (192, 128, 255),
      (192, 192, 0), (192, 192, 64), (192, 192, 128), (192, 192, 192), (192, 192, 255),
      (192, 255, 0), (192, 255, 64), (192, 255, 128), (192, 255, 192), (192, 255, 255),
      (255, 0, 0), (255, 0, 64), (255, 0, 128), (255, 0, 192), (255, 0, 255),
      (255, 64, 0), (255, 64, 64), (255, 64, 128), (255, 64, 192), (255, 64, 255),
      (255, 128, 0), (255, 128, 64), (255, 128, 128), (255, 128, 192), (255, 128, 255),
      (255, 192, 0), (255, 192, 64), (255, 192, 128), (255, 192, 192), (255, 192, 255),
      (255, 255, 0), (255, 255, 64), (255, 255, 128), (255, 255, 192), (255, 255, 255)
     ]"

text \<open>
  \<^verbatim>\<open>distance = 2 * sq(r - palette_color.r) + 4 * sq(g - palette_color.g)
           + 3 * sq(b - palette_color.b)\<close>
\<close>

definition distanceV9 :: "rgb \<Rightarrow> rgb \<Rightarrow> int" where
  "distanceV9 c p =
     (case c of (r, g, b) \<Rightarrow> case p of (pr, pg, pb) \<Rightarrow>
        2 * sq (r - pr) + 4 * sq (g - pg) + 3 * sq (b - pb))"

text \<open>
  The loop \<^verbatim>\<open>for (quint8 i = 0; i < 125; ++i)\<close> over the rest of the table, with the
  running \<^verbatim>\<open>best_index\<close> and \<^verbatim>\<open>best_distance\<close>.
\<close>

fun searchV9 :: "rgb \<Rightarrow> rgb list \<Rightarrow> nat \<Rightarrow> nat \<times> int \<Rightarrow> nat \<times> int" where
  "searchV9 c [] i best = best"
| "searchV9 c (p # ps) i (best_index, best_distance) =
     (let distance = distanceV9 c p
      in searchV9 c ps (Suc i)
           (if distance < best_distance then (i, distance) else (best_index, best_distance)))"

definition getPaletteColorV9 :: "rgb \<Rightarrow> nat" where
  "getPaletteColorV9 c =
     (if c = (255, 255, 255) then 124
      else fst (searchV9 c paletteV9 0 (0, 10000)))"

subsection \<open>The 16-colour palette, \<^verbatim>\<open>getPaletteColorV6\<close>\<close>

text \<open>The table \<^verbatim>\<open>palette[16]\<close> of hue, saturation and value.\<close>

definition paletteV6 :: "hsv list" where
  "paletteV6 =
     [( - 1,   0,   0), (  0, 255, 128), (120, 255, 128), ( 60, 255, 128),
      (240, 255, 128), (300, 255, 128), (180, 255, 128), ( - 1,   0, 128),
      ( - 1,   0, 192), (  0, 255, 255), (120, 255, 255), ( 60, 255, 255),
      (240, 255, 255), (300, 255, 255), (180, 255, 255), ( - 1,   0, 255)]"

text \<open>
  The RGB colours of the palette, \<^verbatim>\<open>original_palette[16]\<close> in the disabled generator
  block, which prints \<^verbatim>\<open>palette\<close> as their \<^verbatim>\<open>toHsv()\<close> images.
\<close>

definition original_palette :: "rgb list" where
  "original_palette =
     [(  0,   0,   0), (128,   0,   0), (  0, 128,   0), (128, 128,   0),
      (  0,   0, 128), (128,   0, 128), (  0, 128, 128), (128, 128, 128),
      (192, 192, 192), (255,   0,   0), (  0, 255,   0), (255, 255,   0),
      (  0,   0, 255), (255,   0, 255), (  0, 255, 255), (255, 255, 255)]"

text \<open>Qt's \<^verbatim>\<open>qGray(r, g, b)\<close> is \<^verbatim>\<open>(r * 11 + g * 16 + b * 5) / 32\<close>.\<close>

definition qGray :: "rgb \<Rightarrow> int" where
  "qGray c = (case c of (r, g, b) \<Rightarrow> (r * 11 + g * 16 + b * 5) div 32)"

text \<open>The weighted distance to palette entry \<open>i\<close>, with the manual multipliers.\<close>

definition distanceV6 :: "hsv \<Rightarrow> nat \<Rightarrow> int" where
  "distanceV6 color i =
     (case color of (hue, saturation, val) \<Rightarrow>
      case paletteV6 ! i of (p_hue, p_saturation, p_value) \<Rightarrow>
        let hue_dist = \<bar>hue - p_hue\<bar>;
            distance = 10 * sq (min hue_dist (360 - hue_dist))
                       + sq (saturation - p_saturation)
                       + sq (val - p_value)
        in if i = 1 then distance * 3
           else if i = 3 then distance * 4
           else if i = 11 then distance * 4
           else if i = 9 then distance * 6
           else distance * 2)"

fun searchV6 :: "hsv \<Rightarrow> nat list \<Rightarrow> nat \<times> int \<Rightarrow> nat \<times> int" where
  "searchV6 color [] best = best"
| "searchV6 color (i # is) (best_index, best_distance) =
     (let distance = distanceV6 color i
      in searchV6 color is
           (if distance < best_distance then (i, distance) else (best_index, best_distance)))"

text \<open>
  \<^verbatim>\<open>QColor(rgb).toHsv()\<close> is Qt's floating-point conversion; the model takes it as the
  parameter \<open>toHsv\<close>, giving \<^verbatim>\<open>hue()\<close>, \<^verbatim>\<open>saturation()\<close> and \<^verbatim>\<open>value()\<close>.
\<close>

definition getPaletteColorV6 :: "(rgb \<Rightarrow> hsv) \<Rightarrow> rgb \<Rightarrow> nat" where
  "getPaletteColorV6 toHsv c =
     (if c = (255, 255, 255) then 15
      else case toHsv c of (hue, saturation, val) \<Rightarrow>
        if hue = - 1 \<or> saturation < 32
        then (let gray = qGray c
              in if gray \<ge> 192 then 8 else if gray \<ge> 128 then 7 else 0)
        else fst (searchV6 (hue, saturation, val)
                    [1, 2, 3, 4, 5, 6, 9, 10, 11, 12, 13, 14] (0, 2100000)))"

text \<open>
  The conversion restricted to the sixteen colours of \<open>original_palette\<close>, as the
  generator block tabulates it.
\<close>

definition table_toHsv :: "rgb \<Rightarrow> hsv" where
  "table_toHsv c =
     (case map_of (zip original_palette paletteV6) c of Some h \<Rightarrow> h | None \<Rightarrow> (- 1, 0, 0))"


section \<open>The map model read by the exporter\<close>

text \<open>
  The classes \<^verbatim>\<open>Map\<close>, \<^verbatim>\<open>MapColor\<close>, \<^verbatim>\<open>MapCoord\<close>, \<^verbatim>\<open>Symbol\<close> and \<^verbatim>\<open>Object\<close> are collaborators of
  the exporter.  Each is represented by the values its accessors return to the exporter;
  fields carry the accessors' names.  A \<^verbatim>\<open>const MapColor*\<close> is a \<open>color option\<close>, with
  \<open>None\<close> for \<^verbatim>\<open>nullptr\<close>.
\<close>

type_synonym qint16 = "16 word"
type_synonym color = nat

record map_coord =
  nativeX :: qint32
  nativeY :: qint32
  isDashPoint :: bool
  isCurveStart :: bool
  isHolePoint :: bool

datatype symbol_type = Point | Line | Area | Text | Combined

datatype cap_style = FlatCap | RoundCap | SquareCap | PointedCap

datatype join_style = BevelJoin | MiterJoin | RoundJoin

text \<open>
  The exporter keys its symbol-number table by \<^verbatim>\<open>const Symbol*\<close>.  A key is the identity
  of a symbol object: a symbol owned by the map or by a combined symbol (\<open>Original\<close>), or
  the n-th temporary copy made by \<^verbatim>\<open>Symbol::duplicate()\<close> during the export
  (\<open>Duplicate\<close>), or \<^verbatim>\<open>nullptr\<close>.  Copies are taken to have addresses of their own.
\<close>

datatype symbol_key = NullSymbol | Original nat | Duplicate nat

record symbol_base =
  sym_key :: symbol_key
  sym_number :: "int list"
  sym_name :: string
  sym_hidden :: bool
  sym_protected :: bool

record point_data =
  getInnerRadius :: qint32
  getInnerColor :: "color option"
  getOuterWidth :: qint32
  getOuterColor :: "color option"
  point_isEmpty :: bool

record line_data =
  getLineWidth :: qint32
  getLineColor :: "color option"
  getCapStyle :: cap_style
  getJoinStyle :: join_style
  hasBorder :: bool
  isDashed :: bool

record area_data =
  getAreaColor :: "color option"

text \<open>
  A point symbol owns element symbols with element objects; a line symbol has optional
  start, mid, end and dash point symbols; a combined symbol lists parts, each possibly
  null and possibly private.  For an area symbol the exporter encodes the point symbol
  that \<^verbatim>\<open>exportAreaSymbolCommon\<close> selects among the fill patterns; the selection is not
  modelled and its outcome is the third field of \<open>AreaSymbol\<close>.
\<close>

datatype point_symbol =
    PointSymbol symbol_base point_data "(symbol \<times> map_coord list) list"
and line_symbol =
    LineSymbol symbol_base line_data
      "point_symbol option" "point_symbol option" "point_symbol option" "point_symbol option"
and area_symbol =
    AreaSymbol symbol_base area_data "point_symbol option"
and text_symbol =
    TextSymbol symbol_base
and combined_symbol =
    CombinedSymbol symbol_base "(symbol option \<times> bool) list"
and symbol =
    PointSym point_symbol
  | LineSym line_symbol
  | AreaSym area_symbol
  | TextSym text_symbol
  | CombinedSym combined_symbol

fun point_base :: "point_symbol \<Rightarrow> symbol_base" where
  "point_base (PointSymbol b d els) = b"

fun point_fields :: "point_symbol \<Rightarrow> point_data" where
  "point_fields (PointSymbol b d els) = d"

fun point_elements :: "point_symbol \<Rightarrow> (symbol \<times> map_coord list) list" where
  "point_elements (PointSymbol b d els) = els"

fun line_base :: "line_symbol \<Rightarrow> symbol_base" where
  "line_base (LineSymbol b d st mi en da) = b"

fun line_fields :: "line_symbol \<Rightarrow> line_data" where
  "line_fields (LineSymbol b d st mi en da) = d"

fun getStartSymbol :: "line_symbol \<Rightarrow> point_symbol option" where
  "getStartSymbol (LineSymbol b d st mi en da) = st"

fun getMidSymbol :: "line_symbol \<Rightarrow> point_symbol option" where
  "getMidSymbol (LineSymbol b d st mi en da) = mi"

fun getEndSymbol :: "line_symbol \<Rightarrow> point_symbol option" where
  "getEndSymbol (LineSymbol b d st mi en da) = en"

fun getDashSymbol :: "line_symbol \<Rightarrow> point_symbol option" where
  "getDashSymbol (LineSymbol b d st mi en da) = da"

fun area_base :: "area_symbol \<Rightarrow> symbol_base" where
  "area_base (AreaSymbol b d pat) = b"

fun area_fields :: "area_symbol \<Rightarrow> area_data" where
  "area_fields (AreaSymbol b d pat) = d"

fun area_pattern_symbol :: "area_symbol \<Rightarrow> point_symbol option" where
  "area_pattern_symbol (AreaSymbol b d pat) = pat"

fun text_base :: "text_symbol \<Rightarrow> symbol_base" where
  "text_base (TextSymbol b) = b"

fun combined_base :: "combined_symbol \<Rightarrow> symbol_base" where
  "combined_base (CombinedSymbol b ps) = b"

fun combined_parts :: "combined_symbol \<Rightarrow> (symbol option \<times> bool) list" where
  "combined_parts (CombinedSymbol b ps) = ps"

fun getType :: "symbol \<Rightarrow> symbol_type" where
  "getType (PointSym s) = Point"
| "getType (LineSym s) = Line"
| "getType (AreaSym s) = Area"
| "getType (TextSym s) = Text"
| "getType (CombinedSym s) = Combined"

fun base_of :: "symbol \<Rightarrow> symbol_base" where
  "base_of (PointSym s) = point_base s"
| "base_of (LineSym s) = line_base s"
| "base_of (AreaSym s) = area_base s"
| "base_of (TextSym s) = text_base s"
| "base_of (CombinedSym s) = combined_base s"

fun set_base :: "symbol_base \<Rightarrow> symbol \<Rightarrow> symbol" where
  "set_base b' (PointSym (PointSymbol b d els)) = PointSym (PointSymbol b' d els)"
| "set_base b' (LineSym (LineSymbol b d st mi en da)) = LineSym (LineSymbol b' d st mi en da)"
| "set_base b' (AreaSym (AreaSymbol b d pat)) = AreaSym (AreaSymbol b' d pat)"
| "set_base b' (TextSym (TextSymbol b)) = TextSym (TextSymbol b')"
| "set_base b' (CombinedSym (CombinedSymbol b ps)) = CombinedSym (CombinedSymbol b' ps)"

definition key_of :: "symbol \<Rightarrow> symbol_key" where
  "key_of s = sym_key (base_of s)"

text \<open>\<^verbatim>\<open>Symbol::getNumberComponent(i)\<close>, for the components the exporter reads.\<close>

definition getNumberComponent :: "symbol_base \<Rightarrow> nat \<Rightarrow> int" where
  "getNumberComponent b i = sym_number b ! i"

text \<open>
  \<^verbatim>\<open>symbol->isEmpty()\<close> on an optional point symbol, as in
  \<^verbatim>\<open>(!line->getDashSymbol() || line->getDashSymbol()->isEmpty())\<close>.
\<close>

fun null_or_empty :: "point_symbol option \<Rightarrow> bool" where
  "null_or_empty None = True"
| "null_or_empty (Some p) = point_isEmpty (point_fields p)"

datatype object_type = PointObject | PathObject | TextObject

text \<open>
  An object as it is encoded, that is after \<^verbatim>\<open>exportObjects\<close> has replaced it by a copy
  moved by the area offset where needed (the copy keeps the symbol).  The following are
  taken as given with the object: whether \<^verbatim>\<open>getSymbol()->getContainedTypes()\<close> includes
  \<^verbatim>\<open>Symbol::Area\<close>; the corners of \<^verbatim>\<open>getExtent()\<close>; the five resp. four map coordinates
  that \<^verbatim>\<open>exportTextCoordinatesSingle\<close> and \<^verbatim>\<open>exportTextCoordinatesBox\<close> compute from the
  text layout; the payload returned by \<^verbatim>\<open>exportTextData\<close> and the truncation warning it
  may append.  These depend on floating-point geometry, font metrics and text codecs.
\<close>

type_synonym native_coord = "qint32 \<times> qint32"

record map_object =
  obj_type :: object_type
  getSymbol :: "symbol option"
  symbol_contains_area :: bool
  getRawCoordinateVector :: "map_coord list"
  getHorizontalAlignment :: int
  getNumLines :: nat
  hasSingleAnchor :: bool
  extent_bottomLeft :: native_coord
  extent_topRight :: native_coord
  text_single_coords ::
    "native_coord \<times> native_coord \<times> native_coord \<times> native_coord \<times> native_coord"
  text_box_coords :: "native_coord \<times> native_coord \<times> native_coord \<times> native_coord"
  text_data :: "byte list"
  text_truncation_warning :: "string option"

text \<open>
  The map: colours, symbols and parts in order; the notes after conversion to the 8-bit
  encoding; whether a symbol uses the registration colour
  (\<^verbatim>\<open>isColorUsedByASymbol(getRegistrationColor())\<close>); and the outcome of
  \<^verbatim>\<open>calculateAreaOffset\<close>, which works on floating-point rectangles: the offset and the
  warnings it appends.
\<close>

record map_model =
  map_colors :: "color list"
  map_symbols :: "symbol list"
  map_parts :: "map_object list list"
  encoded_notes :: "byte list"
  registration_color_used :: bool
  registration_color :: color
  area_offset_outcome :: "(qint32 \<times> qint32) \<times> string list"
  codec_available :: bool

section \<open>Byte arrays and record layouts\<close>

text \<open>
  The binary layouts (\<^verbatim>\<open>ocd_types*.h\<close>) are not among the sources, so a \<^verbatim>\<open>QByteArray\<close> is
  kept as a list of chunks: the leading part of a record struct of a given size, a
  pattern element header, an encoded coordinate, or plain bytes.  An encoded coordinate
  \<^verbatim>\<open>Ocd::OcdPoint32\<close> is the pair of \<^verbatim>\<open>qint32\<close> made by \<^verbatim>\<open>convertPoint\<close>, 8 bytes, with the
  flag constants or-ed into \<^verbatim>\<open>x\<close> and \<^verbatim>\<open>y\<close> kept by name.
\<close>

datatype ocd_flag = FlagCorner | FlagDash | FlagHole | FlagCtl1 | FlagCtl2

record ocd_point32 =
  pt_x :: qint32
  pt_y :: qint32
  pt_x_flags :: "ocd_flag set"
  pt_y_flags :: "ocd_flag set"

datatype element_type = TypeNone | TypeLine | TypeArea | TypeCircle | TypeDot

record ocd_element =
  elem_type :: element_type
  elem_flags :: nat
  elem_color :: quint16
  elem_line_width :: qint16
  elem_diameter :: qint16
  elem_num_coords :: quint16

datatype chunk =
    Struct nat
  | ElementChunk ocd_element
  | PointChunk ocd_point32
  | Bytes "byte list"

type_synonym byte_array = "chunk list"

definition sizeof_OcdPoint32 :: nat where
  "sizeof_OcdPoint32 = 8"

text \<open>
  Modelled from the spec: the struct \<^verbatim>\<open>Element\<close> of a pattern element is declared in
  \<^verbatim>\<open>ocd_types_v8.h\<close>, not under src/.  An element is rendered as type, colour, size
  fields and coordinate count; \<^verbatim>\<open>exportSubPattern\<close> counts it as two coordinates
  (\<^verbatim>\<open>num_coords += 2 + element.num_coords\<close>), i.e. 16 bytes.
\<close>

definition sizeof_Element :: nat where
  "sizeof_Element = 2 * sizeof_OcdPoint32"

fun chunk_size :: "chunk \<Rightarrow> nat" where
  "chunk_size (Struct n) = n"
| "chunk_size (ElementChunk e) = sizeof_Element"
| "chunk_size (PointChunk p) = sizeof_OcdPoint32"
| "chunk_size (Bytes bs) = length bs"

text \<open>\<^verbatim>\<open>QByteArray::size()\<close> and \<^verbatim>\<open>QByteArray::isEmpty()\<close>.\<close>

definition ba_size :: "byte_array \<Rightarrow> nat" where
  "ba_size ba = sum_list (map chunk_size ba)"

definition ba_isEmpty :: "byte_array \<Rightarrow> bool" where
  "ba_isEmpty ba = (ba_size ba = 0)"

text \<open>
  The template parameter \<^verbatim>\<open>Format\<close> with the layout constants the exporter takes from
  it: \<^verbatim>\<open>OcdBaseSymbol::symbol_number_factor\<close>, the record sizes before the first pattern
  element or coordinate (\<^verbatim>\<open>sizeof(OcdPointSymbol) - sizeof(Element)\<close> and so on), the size
  of a new file's byte array, and whether \<^verbatim>\<open>Format::Encoding\<close> is the custom 8-bit
  encoding.

  Modelled from the spec: \<^verbatim>\<open>Ocd::addPadding\<close> is declared in \<^verbatim>\<open>ocd_types.h\<close>, not under
  src/.  It gives ``the record's final padded byte size''; \<open>padded_size\<close> maps the size
  of a byte array to its size after padding.

  Modelled from the spec: the object struct and its index entry are declared in the
  format headers, not under src/.  The exporter converts to the types of their members
  \<^verbatim>\<open>size\<close>, \<^verbatim>\<open>num_items\<close> and \<^verbatim>\<open>num_text\<close> with \<^verbatim>\<open>decltype\<close>; these are taken as unsigned integer
  types, and their widths in bits are the layout constants \<open>entry_size_width\<close>,
  \<open>num_items_width\<close> and \<open>num_text_width\<close>.  \<open>size_t_width\<close> is the width of
  \<^verbatim>\<open>std::size_t\<close>, the type of \<^verbatim>\<open>sizeof\<close>, on the platform.
\<close>

datatype format_tag = FormatV8 | FormatV9 | FormatV11 | FormatV12

record format =
  fmt_tag :: format_tag
  fmt_version :: nat
  symbol_number_factor :: int
  point_header_size :: nat
  area_header_size :: nat
  line_header_size :: nat
  text_symbol_size :: nat
  object_header_size :: nat
  file_header_size :: nat
  custom_8bit :: bool
  padded_size :: "nat \<Rightarrow> nat"
  entry_size_width :: nat
  num_items_width :: nat
  num_text_width :: nat
  size_t_width :: nat

datatype ocd_symbol_type = SymbolTypePoint | SymbolTypeLine | SymbolTypeArea | SymbolTypeText

text \<open>
  A symbol record: the fields of the struct that the model tracks, and the byte array
  returned by the export function.
\<close>

record ocd_symbol =
  rec_type :: ocd_symbol_type
  rec_number :: int
  rec_size :: int
  rec_data_size :: int
  rec_primary_data_size :: int
  rec_secondary_data_size :: int
  rec_corner_data_size :: int
  rec_start_data_size :: int
  rec_end_data_size :: int
  rec_alignment :: int
  rec_border_on :: bool
  rec_border_symbol :: int
  rec_framing :: bool
  rec_data :: byte_array

record ocd_object =
  ocd_obj_type :: nat
  ocd_obj_symbol :: int
  ocd_obj_num_items :: nat
  ocd_obj_num_text :: nat
  ocd_obj_unicode :: nat

record index_entry =
  entry_bottom_left_bound :: "qint32 \<times> qint32"
  entry_top_right_bound :: "qint32 \<times> qint32"
  entry_size :: nat
  entry_symbol :: int
  entry_type :: nat

datatype file_type = TypeNone_file | TypeMap | TypeMapV8

datatype parameter_string =
    ScalePar nat
  | MapNotes "byte list"
  | ColorString nat color

text \<open>
  Modelled from the spec: the class template \<^verbatim>\<open>OcdFile<Format>\<close> is declared in
  \<^verbatim>\<open>ocd_types.h\<close>, not under the sources.  The file is a generic header, a symbol
  section, an object section with its index, and a table of parameter strings; these are
  kept as separate fields.  \<open>byteArray\<close> is the header followed by what the version 8
  setup appends; \<open>color_info\<close> is the colour table of the version 8 symbol header.
\<close>

record ocd_file =
  header_version :: nat
  header_file_type :: file_type
  header_info_pos :: nat
  header_info_size :: nat
  byteArray :: byte_array
  color_info :: "(nat \<times> color) list"
  header_num_colors :: nat
  file_strings :: "(int \<times> parameter_string) list"
  file_symbols :: "ocd_symbol list"
  file_objects :: "(byte_array \<times> index_entry) list"

datatype export_error =
    FileFormatException string
  | Unreachable

text \<open>
  The exporter object, together with the local \<^verbatim>\<open>OcdFile<Format> file\<close> of
  \<^verbatim>\<open>exportImplementation\<close>, which every export function receives by reference.
  \<open>stream\<close> lists the files written to the output device, each standing for the byte
  array \<^verbatim>\<open>file.constByteArray()\<close>; \<open>allocations\<close> counts the symbol copies made so far.
\<close>

record exporter =
  exp_map :: map_model
  out_file :: ocd_file
  ocd_version :: nat
  uses_registration_color :: bool
  area_offset :: "qint32 \<times> qint32"
  symbol_numbers :: "(symbol_key \<times> int) list"
  text_format_mapping :: "(symbol_key \<times> int \<times> int) list"
  warnings :: "string list"
  allocations :: nat
  stream :: "ocd_file list"

text \<open>
  A thrown exception or a reached \<^verbatim>\<open>Q_UNREACHABLE()\<close> ends the export; the failure carries
  the state of the exporter at that moment.
\<close>

type_synonym failure = "export_error \<times> exporter"

definition addWarning :: "string \<Rightarrow> exporter \<Rightarrow> exporter" where
  "addWarning w e = e\<lparr>warnings := warnings e @ [w]\<rparr>"

section \<open>Sizes and colours\<close>

text \<open>\<^verbatim>\<open>constexpr qint16 convertSize(qint32 size) { return qint16((size+5) / 10); }\<close>\<close>

definition convertSize :: "qint32 \<Rightarrow> qint16" where
  "convertSize size' = ucast (word_sdiv (size' + 5) 10)"

text \<open>
  Modelled from the spec: \<^verbatim>\<open>Map::findColorIndex\<close> is defined in \<^verbatim>\<open>core/map.cpp\<close>, not
  under src/.  It gives a colour's position in the map's colour table, and a negative
  value for a colour that is not in the table (``unregistered colors (not present in the
  table)'').
\<close>

fun findColorIndex_from :: "int \<Rightarrow> color list \<Rightarrow> color \<Rightarrow> int" where
  "findColorIndex_from i [] c = - 1"
| "findColorIndex_from i (x # xs) c = (if x = c then i else findColorIndex_from (i + 1) xs c)"

definition findColorIndex :: "map_model \<Rightarrow> color option \<Rightarrow> int" where
  "findColorIndex m color =
     (case color of None \<Rightarrow> - 1 | Some c \<Rightarrow> findColorIndex_from 0 (map_colors m) c)"

text \<open>
  \<^verbatim>\<open>quint16 OcdFileExport::convertColor(const MapColor* color) const
  { auto index = map->findColorIndex(color);
    if (index >= 0) { return quint16(uses_registration_color ? (index + 1) : index); }
    return 0; }\<close>
\<close>

definition convertColor :: "exporter \<Rightarrow> color option \<Rightarrow> quint16" where
  "convertColor e color =
     (let index = findColorIndex (exp_map e) color
      in if index \<ge> 0
         then word_of_int (if uses_registration_color e then index + 1 else index)
         else 0)"

section \<open>Coordinates and point patterns\<close>

text \<open>The flag a dash point gets in \<^verbatim>\<open>exportCoordinates\<close>.\<close>

fun dash_point_flag :: "symbol option \<Rightarrow> ocd_flag" where
  "dash_point_flag (Some (LineSym line_symbol)) =
     (if null_or_empty (getDashSymbol line_symbol) \<and> isDashed (line_fields line_symbol)
      then FlagDash else FlagCorner)"
| "dash_point_flag _ = FlagCorner"

text \<open>
  The loop of \<^verbatim>\<open>exportCoordinates\<close> with its three carried booleans; each point becomes
  one encoded coordinate.
\<close>

fun exportCoordinates_loop ::
  "symbol option \<Rightarrow> map_coord list \<Rightarrow> bool \<Rightarrow> bool \<Rightarrow> bool \<Rightarrow> ocd_point32 list" where
  "exportCoordinates_loop symbol [] curve_start hole_point curve_continue = []"
| "exportCoordinates_loop symbol (point # coords) curve_start hole_point curve_continue =
     (let p = convertPoint (nativeX point, nativeY point)
      in \<lparr> pt_x = fst p, pt_y = snd p,
           pt_x_flags = (if curve_start then {FlagCtl1} else {})
                        \<union> (if curve_continue then {FlagCtl2} else {}),
           pt_y_flags = (if isDashPoint point then {dash_point_flag symbol} else {})
                        \<union> (if hole_point then {FlagHole} else {}) \<rparr>
         # exportCoordinates_loop symbol coords
             (isCurveStart point) (isHolePoint point) curve_start)"

text \<open>Returns the \<^verbatim>\<open>quint16\<close> count \<^verbatim>\<open>num_points\<close> and the extended byte array.\<close>

definition exportCoordinates ::
  "map_coord list \<Rightarrow> symbol option \<Rightarrow> byte_array \<Rightarrow> quint16 \<times> byte_array" where
  "exportCoordinates coords symbol byte_array =
     (word_of_nat (length coords),
      byte_array @ map PointChunk (exportCoordinates_loop symbol coords False False False))"

definition Element_proto :: ocd_element where
  "Element_proto =
     \<lparr> elem_type = TypeNone, elem_flags = 0, elem_color = 0, elem_line_width = 0,
       elem_diameter = 0, elem_num_coords = 0 \<rparr>"

text \<open>
  \<^verbatim>\<open>makeElement\<close> appends an element, the caller fills it in and the coordinates follow;
  \<^verbatim>\<open>element.num_coords\<close> is the count returned by \<^verbatim>\<open>exportCoordinates\<close>.  The result is
  the count \<^verbatim>\<open>2 + element.num_coords\<close> added to the \<^verbatim>\<open>qint16\<close> \<^verbatim>\<open>num_coords\<close>, and the byte
  array.
\<close>

definition appendElement ::
  "ocd_element \<Rightarrow> map_coord list \<Rightarrow> symbol \<Rightarrow> qint16 \<times> byte_array \<Rightarrow> qint16 \<times> byte_array" where
  "appendElement element coords symbol acc =
     (let r = exportCoordinates coords (Some symbol) [];
          element' = element\<lparr>elem_num_coords := fst r\<rparr>
      in (fst acc + 2 + fst r, snd acc @ [ElementChunk element'] @ snd r))"

definition has_inner :: "point_data \<Rightarrow> bool" where
  "has_inner d \<longleftrightarrow> 0 <s getInnerRadius d \<and> getInnerColor d \<noteq> None"

definition has_outer :: "point_data \<Rightarrow> bool" where
  "has_outer d \<longleftrightarrow> 0 <s getOuterWidth d \<and> getOuterColor d \<noteq> None"

text \<open>
  \<^verbatim>\<open>exportSubPattern\<close>: a dot and a circle for a point symbol, one element for a line or
  an area symbol, \<^verbatim>\<open>Q_UNREACHABLE()\<close> for the other symbol types.
\<close>

fun exportSubPattern ::
  "exporter \<Rightarrow> map_coord list \<Rightarrow> symbol \<Rightarrow> byte_array \<Rightarrow> failure + (qint16 \<times> byte_array)" where
  "exportSubPattern e coords (PointSym point_symbol) byte_array =
     (let d = point_fields point_symbol;
          acc0 = (0, byte_array);
          acc1 = (if has_inner d
                  then appendElement
                         (Element_proto\<lparr> elem_type := TypeDot,
                            elem_color := convertColor e (getInnerColor d),
                            elem_diameter := convertSize (2 * getInnerRadius d) \<rparr>)
                         coords (PointSym point_symbol) acc0
                  else acc0);
          acc2 = (if has_outer d
                  then appendElement
                         (Element_proto\<lparr> elem_type := TypeCircle,
                            elem_color := convertColor e (getOuterColor d),
                            elem_line_width := convertSize (getOuterWidth d),
                            elem_diameter :=
                              (if ocd_version e \<le> 8
                               then convertSize (2 * getInnerRadius d + 2 * getOuterWidth d)
                               else convertSize (2 * getInnerRadius d + getOuterWidth d)) \<rparr>)
                         coords (PointSym point_symbol) acc1
                  else acc1)
      in Inr acc2)"
| "exportSubPattern e coords (LineSym line_symbol) byte_array =
     (let d = line_fields line_symbol
      in Inr (appendElement
                (Element_proto\<lparr> elem_type := TypeLine,
                   elem_flags := (if getCapStyle d = RoundCap then 1
                                  else if getJoinStyle d = MiterJoin then 4 else 0),
                   elem_color := convertColor e (getLineColor d),
                   elem_line_width := convertSize (getLineWidth d) \<rparr>)
                coords (LineSym line_symbol) (0, byte_array)))"
| "exportSubPattern e coords (AreaSym area_symbol) byte_array =
     Inr (appendElement
            (Element_proto\<lparr> elem_type := TypeArea,
               elem_color := convertColor e (getAreaColor (area_fields area_symbol)) \<rparr>)
            coords (AreaSym area_symbol) (0, byte_array))"
| "exportSubPattern e coords (CombinedSym s) byte_array = Inl (Unreachable, e)"
| "exportSubPattern e coords (TextSym s) byte_array = Inl (Unreachable, e)"

text \<open>The loop of \<^verbatim>\<open>exportPattern\<close> over the elements of the point symbol.\<close>

fun exportPattern_elements ::
  "exporter \<Rightarrow> (symbol \<times> map_coord list) list \<Rightarrow> qint16 \<times> byte_array
     \<Rightarrow> failure + (qint16 \<times> byte_array)" where
  "exportPattern_elements e [] acc = Inr acc"
| "exportPattern_elements e ((element_symbol, coords) # els) acc =
     (case exportSubPattern e coords element_symbol (snd acc) of
        Inl err \<Rightarrow> Inl err
      | Inr r \<Rightarrow> exportPattern_elements e els (fst acc + fst r, snd r))"

text \<open>The vector \<^verbatim>\<open>{ {} }\<close>: one default-constructed coordinate.\<close>

definition default_coords :: "map_coord list" where
  "default_coords =
     [\<lparr> nativeX = 0, nativeY = 0, isDashPoint = False, isCurveStart = False,
        isHolePoint = False \<rparr>]"

fun exportPattern ::
  "exporter \<Rightarrow> point_symbol option \<Rightarrow> byte_array \<Rightarrow> failure + (qint16 \<times> byte_array)" where
  "exportPattern e None byte_array = Inr (0, byte_array)"
| "exportPattern e (Some point) byte_array =
     (case exportSubPattern e default_coords (PointSym point) byte_array of
        Inl err \<Rightarrow> Inl err
      | Inr r \<Rightarrow> exportPattern_elements e (point_elements point) r)"

text \<open>
  \<^verbatim>\<open>getPatternSize\<close>.  The counts are C++ \<^verbatim>\<open>int\<close>s; they count the bytes of a \<^verbatim>\<open>QByteArray\<close>,
  whose size is an \<^verbatim>\<open>int\<close> as well, and are computed on \<open>int\<close> here.
\<close>

fun pattern_factor :: "symbol \<Rightarrow> int" where
  "pattern_factor (PointSym point_symbol) =
     (let d = point_fields point_symbol;
          factor = 0;
          factor = (if has_inner d then factor + 1 else factor);
          factor = (if has_outer d then factor + 1 else factor)
      in factor)"
| "pattern_factor _ = 1"

fun getPatternSize_count :: "(symbol \<times> map_coord list) list \<Rightarrow> int \<Rightarrow> int" where
  "getPatternSize_count [] count = count"
| "getPatternSize_count ((element_symbol, coords) # els) count =
     getPatternSize_count els
       (count + pattern_factor element_symbol * (2 + int (length coords)))"

fun getPatternSize :: "point_symbol option \<Rightarrow> int" where
  "getPatternSize None = 0"
| "getPatternSize (Some point) =
     (let count = getPatternSize_count (point_elements point) 0;
          count = (if has_inner (point_fields point) then count + (2 + 1) else count);
          count = (if has_outer (point_fields point) then count + (2 + 1) else count)
      in count * int sizeof_OcdPoint32)"

section \<open>Symbol numbers\<close>

text \<open>
  \<^verbatim>\<open>symbol_numbers\<close> is a \<^verbatim>\<open>std::unordered_map<const Symbol*, quint32>\<close>: an association
  list with one entry per key.  \<open>symbol_numbers_assign\<close> is \<^verbatim>\<open>symbol_numbers[k] = v\<close>,
  \<open>symbol_numbers_at\<close> is the read \<^verbatim>\<open>symbol_numbers[k]\<close>, which inserts a zero entry for
  a key that is missing.
\<close>

fun assign :: "symbol_key \<Rightarrow> int \<Rightarrow> (symbol_key \<times> int) list \<Rightarrow> (symbol_key \<times> int) list" where
  "assign k v [] = [(k, v)]"
| "assign k v (entry # tbl) =
     (if fst entry = k then (k, v) # tbl else entry # assign k v tbl)"

definition symbol_numbers_assign :: "symbol_key \<Rightarrow> int \<Rightarrow> exporter \<Rightarrow> exporter" where
  "symbol_numbers_assign k v e = e\<lparr>symbol_numbers := assign k v (symbol_numbers e)\<rparr>"

definition symbol_numbers_find :: "exporter \<Rightarrow> symbol_key \<Rightarrow> int option" where
  "symbol_numbers_find e k = map_of (symbol_numbers e) k"

definition symbol_numbers_at :: "symbol_key \<Rightarrow> exporter \<Rightarrow> int \<times> exporter" where
  "symbol_numbers_at k e =
     (case symbol_numbers_find e k of
        Some v \<Rightarrow> (v, e)
      | None \<Rightarrow> (0, symbol_numbers_assign k 0 e))"

text \<open>
  \<^verbatim>\<open>while (std::any_of(begin(symbol_numbers), end(symbol_numbers), matches_symbol_number))
    ++ocd_base_symbol.number;\<close>
\<close>

function make_unique :: "(symbol_key \<times> int) list \<Rightarrow> int \<Rightarrow> int" where
  "make_unique tbl number =
     (if list_ex (\<lambda>entry. number = snd entry) tbl
      then make_unique tbl (number + 1)
      else number)"
  by pat_completeness auto
termination
proof (relation "measure (\<lambda>(tbl, number). nat (Max (snd ` set tbl) + 1 - number))")
  show "wf (measure (\<lambda>(tbl, number). nat (Max (snd ` set tbl) + 1 - number)))"
    by simp
next
  fix tbl :: "(symbol_key \<times> int) list" and number :: int
  assume "list_ex (\<lambda>entry. number = snd entry) tbl"
  then have "number \<in> snd ` set tbl"
    by (auto simp add: list_ex_iff)
  then have "number \<le> Max (snd ` set tbl)"
    by (intro Max_ge) auto
  then show "((tbl, number + 1), (tbl, number))
               \<in> measure (\<lambda>(tbl, number). nat (Max (snd ` set tbl) + 1 - number))"
    by simp
qed

section \<open>Symbol encoder\<close>

text \<open>
  \<^verbatim>\<open>setupBaseSymbol\<close>, the part that assigns the symbol number: the number is packed from
  the first two number components, \<open>0\<close> is replaced by \<open>1\<close>, the number is incremented
  while it occurs in \<^verbatim>\<open>symbol_numbers\<close>, and it is entered there under the symbol.  The
  numbers are computed on \<open>int\<close>; the narrowing to the number field of the record layout,
  the status bits, the colour bitmask and the icon are not modelled.
\<close>

definition setupBaseSymbol :: "format \<Rightarrow> symbol_base \<Rightarrow> exporter \<Rightarrow> int \<times> exporter" where
  "setupBaseSymbol fmt symbol e =
     (let number = getNumberComponent symbol 0 * symbol_number_factor fmt;
          number = (if getNumberComponent symbol 1 \<ge> 0
                    then number + getNumberComponent symbol 1 mod symbol_number_factor fmt
                    else number);
          ocd_number = (if number \<noteq> 0 then number else 1);
          ocd_number = make_unique (symbol_numbers e) ocd_number
      in (ocd_number, symbol_numbers_assign (sym_key symbol) ocd_number e))"

definition new_symbol :: "ocd_symbol_type \<Rightarrow> int \<Rightarrow> ocd_symbol" where
  "new_symbol ty number =
     \<lparr> rec_type = ty, rec_number = number, rec_size = 0, rec_data_size = 0,
       rec_primary_data_size = 0, rec_secondary_data_size = 0, rec_corner_data_size = 0,
       rec_start_data_size = 0, rec_end_data_size = 0, rec_alignment = 0,
       rec_border_on = False, rec_border_symbol = 0, rec_framing = False, rec_data = [] \<rparr>"

text \<open>\<^verbatim>\<open>file.symbols().insert(ocd_symbol)\<close>\<close>

definition insert_symbol :: "ocd_symbol \<Rightarrow> exporter \<Rightarrow> exporter" where
  "insert_symbol ocd_symbol e =
     e\<lparr>out_file := (out_file e)\<lparr>file_symbols := file_symbols (out_file e) @ [ocd_symbol]\<rparr>\<rparr>"

text \<open>
  \<^verbatim>\<open>exportPointSymbol\<close>: the record header followed by the pattern, with
  \<^verbatim>\<open>base.size = header_size + pattern_size\<close> and \<^verbatim>\<open>data_size = pattern_size / 8\<close>.
\<close>

definition exportPointSymbol ::
  "format \<Rightarrow> point_symbol \<Rightarrow> exporter \<Rightarrow> failure + (ocd_symbol \<times> exporter)" where
  "exportPointSymbol fmt point_symbol e =
     (let s = setupBaseSymbol fmt (point_base point_symbol) e;
          e1 = snd s;
          pattern_size = getPatternSize (Some point_symbol);
          header_size = point_header_size fmt
      in case exportPattern e1 (Some point_symbol) [Struct header_size] of
           Inl err \<Rightarrow> Inl err
         | Inr r \<Rightarrow>
             Inr ((new_symbol SymbolTypePoint (fst s))
                    \<lparr> rec_size := int header_size + pattern_size,
                      rec_data_size := pattern_size div 8,
                      rec_data := snd r \<rparr>, e1))"

definition exportAreaSymbol ::
  "format \<Rightarrow> area_symbol \<Rightarrow> exporter \<Rightarrow> failure + (ocd_symbol \<times> exporter)" where
  "exportAreaSymbol fmt area_symbol e =
     (let s = setupBaseSymbol fmt (area_base area_symbol) e;
          e1 = snd s;
          pattern_symbol = area_pattern_symbol area_symbol;
          pattern_size = getPatternSize pattern_symbol;
          header_size = area_header_size fmt
      in case exportPattern e1 pattern_symbol [Struct header_size] of
           Inl err \<Rightarrow> Inl err
         | Inr r \<Rightarrow>
             Inr ((new_symbol SymbolTypeArea (fst s))
                    \<lparr> rec_size := int header_size + pattern_size,
                      rec_data_size := pattern_size div 8,
                      rec_data := snd r \<rparr>, e1))"

text \<open>
  \<^verbatim>\<open>exportLineSymbol\<close> with the sizes set by \<^verbatim>\<open>exportLineSymbolCommon\<close>; the patterns follow
  the header in the order mid, dash, start, end.
\<close>

definition exportLineSymbol ::
  "format \<Rightarrow> line_symbol \<Rightarrow> exporter \<Rightarrow> failure + (ocd_symbol \<times> exporter)" where
  "exportLineSymbol fmt line_symbol e =
     (let s = setupBaseSymbol fmt (line_base line_symbol) e;
          e1 = snd s;
          primary_data_size = getPatternSize (getMidSymbol line_symbol) div 8;
          secondary_data_size = 0;
          corner_data_size = getPatternSize (getDashSymbol line_symbol) div 8;
          start_data_size = getPatternSize (getStartSymbol line_symbol) div 8;
          end_data_size = getPatternSize (getEndSymbol line_symbol) div 8;
          pattern_size = 8 * (primary_data_size + secondary_data_size + corner_data_size
                              + start_data_size + end_data_size);
          header_size = line_header_size fmt
      in case exportPattern e1 (getMidSymbol line_symbol) [Struct header_size] of
           Inl err \<Rightarrow> Inl err
         | Inr r1 \<Rightarrow>
        (case exportPattern e1 (getDashSymbol line_symbol) (snd r1) of
           Inl err \<Rightarrow> Inl err
         | Inr r2 \<Rightarrow>
        (case exportPattern e1 (getStartSymbol line_symbol) (snd r2) of
           Inl err \<Rightarrow> Inl err
         | Inr r3 \<Rightarrow>
        (case exportPattern e1 (getEndSymbol line_symbol) (snd r3) of
           Inl err \<Rightarrow> Inl err
         | Inr r4 \<Rightarrow>
             Inr ((new_symbol SymbolTypeLine (fst s))
                    \<lparr> rec_size := int header_size + pattern_size,
                      rec_primary_data_size := primary_data_size,
                      rec_secondary_data_size := secondary_data_size,
                      rec_corner_data_size := corner_data_size,
                      rec_start_data_size := start_data_size,
                      rec_end_data_size := end_data_size,
                      rec_data := snd r4 \<rparr>, e1)))))"

text \<open>The inner \<^verbatim>\<open>exportTextSymbol(text_symbol, alignment)\<close>: one record of fixed size.\<close>

definition exportTextSymbol_record ::
  "format \<Rightarrow> text_symbol \<Rightarrow> int \<Rightarrow> exporter \<Rightarrow> ocd_symbol \<times> exporter" where
  "exportTextSymbol_record fmt text_symbol alignment e =
     (let s = setupBaseSymbol fmt (text_base text_symbol) e;
          header_size = text_symbol_size fmt
      in ((new_symbol SymbolTypeText (fst s))
            \<lparr> rec_size := int header_size,
              rec_alignment := alignment,
              rec_data := [Struct header_size] \<rparr>, snd s))"

text \<open>
  The outer \<^verbatim>\<open>exportTextSymbol\<close>.  \<^verbatim>\<open>applyOnMatchingObjects\<close> visits the objects of all parts
  that have the text symbol; \<^verbatim>\<open>handle_alignment\<close> exports one record for each alignment
  not yet in \<^verbatim>\<open>text_format_mapping\<close> from \<^verbatim>\<open>offset\<close> on.
\<close>

definition match_alignment :: "symbol_key \<Rightarrow> int \<Rightarrow> symbol_key \<times> int \<times> int \<Rightarrow> bool" where
  "match_alignment text_symbol alignment mapping \<longleftrightarrow>
     fst mapping = text_symbol \<and> fst (snd mapping) = alignment"

definition handle_alignment ::
  "format \<Rightarrow> text_symbol \<Rightarrow> nat \<Rightarrow> map_object \<Rightarrow> exporter \<Rightarrow> exporter" where
  "handle_alignment fmt text_symbol offset object e =
     (let alignment = getHorizontalAlignment object;
          k = sym_key (text_base text_symbol)
      in if \<not> list_ex (match_alignment k alignment) (drop offset (text_format_mapping e))
         then (let r = exportTextSymbol_record fmt text_symbol alignment e;
                   e1 = insert_symbol (fst r) (snd r);
                   n = symbol_numbers_at k e1;
                   e2 = snd n
               in e2\<lparr>text_format_mapping :=
                        text_format_mapping e2 @ [(k, alignment, fst n)]\<rparr>)
         else e)"

definition has_symbol :: "symbol_key \<Rightarrow> map_object \<Rightarrow> bool" where
  "has_symbol k object \<longleftrightarrow>
     (case getSymbol object of None \<Rightarrow> False | Some s \<Rightarrow> key_of s = k)"

definition exportTextSymbol :: "format \<Rightarrow> text_symbol \<Rightarrow> exporter \<Rightarrow> exporter" where
  "exportTextSymbol fmt text_symbol e =
     (let offset = length (text_format_mapping e);
          matching = filter (has_symbol (sym_key (text_base text_symbol)))
                       (concat (map_parts (exp_map e)));
          e1 = fold (handle_alignment fmt text_symbol offset) matching e
      in if offset = length (text_format_mapping e1)
         then (let r = exportTextSymbol_record fmt text_symbol 0 e1
               in insert_symbol (fst r) (snd r))
         else e1)"

subsection \<open>Combined symbols\<close>

text \<open>
  \<^verbatim>\<open>make_duplicate\<close>: a copy of the part with the number components, name and flags of
  the combined symbol.  The copy is a new object and gets a key of its own, taken from
  the counter \<open>allocations\<close>; in the source the key is the address of the copy, which
  stays in \<^verbatim>\<open>symbol_numbers\<close> after the copy is released and can be the address of a later
  copy.
\<close>

definition make_duplicate :: "combined_symbol \<Rightarrow> symbol \<Rightarrow> exporter \<Rightarrow> symbol \<times> exporter" where
  "make_duplicate combined_symbol symbol e =
     (set_base ((combined_base combined_symbol)\<lparr>sym_key := Duplicate (allocations e)\<rparr>) symbol,
      e\<lparr>allocations := Suc (allocations e)\<rparr>)"

text \<open>The two candidate predicates of the line case.\<close>

definition maybe_framing :: "line_symbol \<Rightarrow> bool" where
  "maybe_framing line \<longleftrightarrow>
     \<not> hasBorder (line_fields line)
     \<and> \<not> isDashed (line_fields line)
     \<and> getCapStyle (line_fields line) \<noteq> PointedCap
     \<and> null_or_empty (getDashSymbol line)
     \<and> null_or_empty (getMidSymbol line)
     \<and> null_or_empty (getStartSymbol line)
     \<and> null_or_empty (getEndSymbol line)"

definition maybe_double_filling :: "line_symbol \<Rightarrow> bool" where
  "maybe_double_filling line \<longleftrightarrow>
     hasBorder (line_fields line)
     \<and> (0 <s getLineWidth (line_fields line) \<and> getLineColor (line_fields line) \<noteq> None)
     \<and> getCapStyle (line_fields line) \<noteq> PointedCap
     \<and> null_or_empty (getDashSymbol line)
     \<and> null_or_empty (getMidSymbol line)
     \<and> null_or_empty (getStartSymbol line)
     \<and> null_or_empty (getEndSymbol line)"

text \<open>The warning at the end of \<^verbatim>\<open>exportCombinedSymbol\<close>, reached by every \<^verbatim>\<open>break\<close>.\<close>

definition unhandled_combined_symbol :: "combined_symbol \<Rightarrow> exporter \<Rightarrow> exporter" where
  "unhandled_combined_symbol combined_symbol e =
     addWarning (''Unhandled combined symbol: '' @ sym_name (combined_base combined_symbol)) e"

text \<open>\<^verbatim>\<open>symbol_numbers[combined_symbol] = symbol_numbers[duplicate.get()];\<close>\<close>

definition copy_symbol_number :: "symbol_key \<Rightarrow> symbol_key \<Rightarrow> exporter \<Rightarrow> exporter" where
  "copy_symbol_number target source e =
     (let n = symbol_numbers_at source e
      in symbol_numbers_assign target (fst n) (snd n))"

text \<open>
  \<^verbatim>\<open>exportCombinedAreaSymbol\<close>; the specialization for the version 8 area symbol is
  \<^verbatim>\<open>Q_UNREACHABLE()\<close>.
\<close>

definition exportCombinedAreaSymbol ::
  "format \<Rightarrow> area_symbol \<Rightarrow> symbol_key \<Rightarrow> exporter \<Rightarrow> failure + (ocd_symbol \<times> exporter)" where
  "exportCombinedAreaSymbol fmt area_symbol line_symbol e =
     (if fmt_tag fmt = FormatV8 then Inl (Unreachable, e)
      else case exportAreaSymbol fmt area_symbol e of
             Inl err \<Rightarrow> Inl err
           | Inr r \<Rightarrow>
               (let n = symbol_numbers_at line_symbol (snd r)
                in Inr ((fst r)\<lparr> rec_border_on := True, rec_border_symbol := fst n \<rparr>, snd n)))"

text \<open>
  \<^verbatim>\<open>exportCombinedLineSymbol\<close>: the record of the main line, marked as carrying the
  framing (and double line) attributes.
\<close>

definition exportCombinedLineSymbol ::
  "format \<Rightarrow> line_symbol \<Rightarrow> line_symbol \<Rightarrow> line_symbol option \<Rightarrow> exporter
     \<Rightarrow> failure + (ocd_symbol \<times> exporter)" where
  "exportCombinedLineSymbol fmt main_line framing double_line e =
     (case exportLineSymbol fmt main_line e of
        Inl err \<Rightarrow> Inl err
      | Inr r \<Rightarrow> Inr ((fst r)\<lparr> rec_framing := True \<rparr>, snd r))"

text \<open>Case 1 of the \<^verbatim>\<open>switch (num_parts)\<close>: a single part.\<close>

definition combined_single ::
  "format \<Rightarrow> combined_symbol \<Rightarrow> symbol \<Rightarrow> exporter \<Rightarrow> failure + exporter" where
  "combined_single fmt combined_symbol part e =
     (let d = make_duplicate combined_symbol part e;
          finish = (\<lambda>r. case r of
                      Inl err \<Rightarrow> Inl err
                    | Inr (ocd_subsymbol, e1) \<Rightarrow>
                        if \<not> ba_isEmpty (rec_data ocd_subsymbol)
                        then Inr (copy_symbol_number (sym_key (combined_base combined_symbol))
                                    (key_of (fst d)) (insert_symbol ocd_subsymbol e1))
                        else Inr (unhandled_combined_symbol combined_symbol e1))
      in case fst d of
           AreaSym area \<Rightarrow> finish (exportAreaSymbol fmt area (snd d))
         | LineSym line \<Rightarrow> finish (exportLineSymbol fmt line (snd d))
         | CombinedSym c \<Rightarrow> Inr (unhandled_combined_symbol combined_symbol (snd d))
         | PointSym p \<Rightarrow> Inl (Unreachable, snd d)
         | TextSym t \<Rightarrow> Inl (Unreachable, snd d))"

text \<open>
  The index found by \<^verbatim>\<open>while (combined_symbol->getPart(i) != border_symbol) ++i;\<close> and
  \<^verbatim>\<open>isPartPrivate(i)\<close> at that index.
\<close>

fun part_private :: "(symbol option \<times> bool) list \<Rightarrow> symbol_key \<Rightarrow> bool" where
  "part_private [] k = False"
| "part_private ((p, private) # ps) k =
     (if (case p of None \<Rightarrow> False | Some s \<Rightarrow> key_of s = k) then private
      else part_private ps k)"

text \<open>An area symbol with a border line, since version 9.\<close>

definition combined_area_border ::
  "format \<Rightarrow> combined_symbol \<Rightarrow> area_symbol \<Rightarrow> line_symbol \<Rightarrow> exporter
     \<Rightarrow> failure + exporter" where
  "combined_area_border fmt combined_symbol area border_symbol e =
     (let border_step =
            (if symbol_numbers_find e (sym_key (line_base border_symbol)) = None
             then (if part_private (combined_parts combined_symbol)
                        (sym_key (line_base border_symbol))
                   then (let d = make_duplicate combined_symbol (LineSym border_symbol) e;
                             b = base_of (fst d);
                             b = b\<lparr>sym_name := ''Border of '' @ sym_name b\<rparr>;
                             b = b\<lparr>sym_number := (sym_number b)[1 := getNumberComponent b 1 + 1]\<rparr>
                         in case set_base b (fst d) of
                              LineSym border_duplicate \<Rightarrow>
                                (case exportLineSymbol fmt border_duplicate (snd d) of
                                   Inl err \<Rightarrow> Inl err
                                 | Inr r \<Rightarrow> Inr (sym_key b, insert_symbol (fst r) (snd r)))
                            | _ \<Rightarrow> Inl (Unreachable, snd d))
                   else (case exportLineSymbol fmt border_symbol e of
                           Inl err \<Rightarrow> Inl err
                         | Inr r \<Rightarrow>
                             Inr (sym_key (line_base border_symbol),
                                  insert_symbol (fst r) (snd r))))
             else Inr (sym_key (line_base border_symbol), e))
      in case border_step of
           Inl err \<Rightarrow> Inl err
         | Inr (border_key, e1) \<Rightarrow>
             (let d = make_duplicate combined_symbol (AreaSym area) e1
              in case fst d of
                   AreaSym area_symbol \<Rightarrow>
                     (case exportCombinedAreaSymbol fmt area_symbol border_key (snd d) of
                        Inl err \<Rightarrow> Inl err
                      | Inr r \<Rightarrow>
                          Inr (copy_symbol_number (sym_key (combined_base combined_symbol))
                                 (key_of (fst d)) (insert_symbol (fst r) (snd r))))
                 | _ \<Rightarrow> Inl (Unreachable, snd d)))"

text \<open>
  Two or three line parts.  \<open>arrange_lines\<close> performs the two swaps: it moves a
  candidate double line to \<^verbatim>\<open>parts[2]\<close> (\<open>None\<close> is the \<^verbatim>\<open>break\<close>) and a candidate framing to
  \<^verbatim>\<open>parts[1]\<close>.
\<close>

definition arrange_lines ::
  "line_symbol \<Rightarrow> line_symbol \<Rightarrow> line_symbol option
     \<Rightarrow> (line_symbol \<times> line_symbol \<times> line_symbol option) option" where
  "arrange_lines l0 l1 l2 =
     (let step1 =
            (case l2 of
               None \<Rightarrow> Some (l0, l1, None)
             | Some p2 \<Rightarrow>
                 if \<not> maybe_double_filling p2
                 then (if maybe_double_filling l0 then Some (p2, l1, Some l0)
                       else if maybe_double_filling l1 then Some (l0, p2, Some l1)
                       else None)
                 else Some (l0, l1, Some p2))
      in case step1 of
           None \<Rightarrow> None
         | Some (q0, q1, q2) \<Rightarrow>
             if \<not> maybe_framing q1 then Some (q1, q0, q2) else Some (q0, q1, q2))"

definition combined_lines ::
  "format \<Rightarrow> combined_symbol \<Rightarrow> line_symbol \<Rightarrow> line_symbol \<Rightarrow> line_symbol option \<Rightarrow> exporter
     \<Rightarrow> failure + exporter" where
  "combined_lines fmt combined_symbol l0 l1 l2 e =
     (case arrange_lines l0 l1 l2 of
        None \<Rightarrow> Inr (unhandled_combined_symbol combined_symbol e)
      | Some (q0, q1, q2) \<Rightarrow>
          if maybe_framing q1
          then (let d = make_duplicate combined_symbol (LineSym q0) e
                in case fst d of
                     LineSym line_symbol \<Rightarrow>
                       if l2 \<noteq> None \<and> hasBorder (line_fields line_symbol)
                       then Inr (unhandled_combined_symbol combined_symbol (snd d))
                       else (case exportCombinedLineSymbol fmt line_symbol q1 q2 (snd d) of
                               Inl err \<Rightarrow> Inl err
                             | Inr r \<Rightarrow>
                                 Inr (copy_symbol_number
                                        (sym_key (combined_base combined_symbol))
                                        (key_of (fst d)) (insert_symbol (fst r) (snd r))))
                   | _ \<Rightarrow> Inl (Unreachable, snd d))
          else Inr (unhandled_combined_symbol combined_symbol e))"

text \<open>Cases 2 and 3 of the \<^verbatim>\<open>switch (num_parts)\<close>; \<open>p2\<close> is \<open>None\<close> for two parts.\<close>

definition combined_multi ::
  "format \<Rightarrow> combined_symbol \<Rightarrow> symbol \<Rightarrow> symbol \<Rightarrow> symbol option \<Rightarrow> exporter
     \<Rightarrow> failure + exporter" where
  "combined_multi fmt combined_symbol p0 p1 p2 e =
     (if getType p0 \<noteq> Line \<and> getType p1 \<noteq> Line
      then Inr (unhandled_combined_symbol combined_symbol e)
      else
        (let q0 = (if getType p1 = Area then p1 else p0);
             q1 = (if getType p1 = Area then p0 else p1)
         in case (q0, q1) of
              (AreaSym area, LineSym border) \<Rightarrow>
                if ocd_version e < 9 \<or> p2 \<noteq> None
                then Inr (unhandled_combined_symbol combined_symbol e)
                else combined_area_border fmt combined_symbol area border e
            | (AreaSym area, _) \<Rightarrow> Inl (Unreachable, e)
            | (LineSym l0, LineSym l1) \<Rightarrow>
                (case p2 of
                   None \<Rightarrow> combined_lines fmt combined_symbol l0 l1 None e
                 | Some (LineSym l2) \<Rightarrow> combined_lines fmt combined_symbol l0 l1 (Some l2) e
                 | Some _ \<Rightarrow> Inr (unhandled_combined_symbol combined_symbol e))
            | _ \<Rightarrow> Inr (unhandled_combined_symbol combined_symbol e)))"

text \<open>The non-null parts, in order; \<^verbatim>\<open>num_parts\<close> is their number.\<close>

fun nonnull_parts :: "(symbol option \<times> bool) list \<Rightarrow> symbol list" where
  "nonnull_parts [] = []"
| "nonnull_parts ((None, private) # ps) = nonnull_parts ps"
| "nonnull_parts ((Some part, private) # ps) = part # nonnull_parts ps"

definition exportCombinedSymbol ::
  "format \<Rightarrow> combined_symbol \<Rightarrow> exporter \<Rightarrow> failure + exporter" where
  "exportCombinedSymbol fmt combined_symbol e =
     (case nonnull_parts (combined_parts combined_symbol) of
        [p0] \<Rightarrow> combined_single fmt combined_symbol p0 e
      | [p0, p1] \<Rightarrow> combined_multi fmt combined_symbol p0 p1 None e
      | [p0, p1, p2] \<Rightarrow> combined_multi fmt combined_symbol p0 p1 (Some p2) e
      | _ \<Rightarrow> Inr (unhandled_combined_symbol combined_symbol e))"

subsection \<open>All symbols\<close>

definition insert_exported ::
  "failure + (ocd_symbol \<times> exporter) \<Rightarrow> failure + exporter" where
  "insert_exported r =
     (case r of
        Inl err \<Rightarrow> Inl err
      | Inr (ocd_symbol, e) \<Rightarrow> Inr (insert_symbol ocd_symbol e))"

definition exportSymbol :: "format \<Rightarrow> symbol \<Rightarrow> exporter \<Rightarrow> failure + exporter" where
  "exportSymbol fmt symbol e =
     (if symbol_numbers_find e (key_of symbol) \<noteq> None then Inr e
      else case symbol of
             PointSym s \<Rightarrow> insert_exported (exportPointSymbol fmt s e)
           | AreaSym s \<Rightarrow> insert_exported (exportAreaSymbol fmt s e)
           | LineSym s \<Rightarrow> insert_exported (exportLineSymbol fmt s e)
           | TextSym s \<Rightarrow> Inr (exportTextSymbol fmt s e)
           | CombinedSym s \<Rightarrow> exportCombinedSymbol fmt s e)"

text \<open>The loop of \<^verbatim>\<open>exportSymbols\<close> over \<^verbatim>\<open>map->getSymbol(i)\<close>.\<close>

fun exportSymbols_loop :: "format \<Rightarrow> symbol list \<Rightarrow> exporter \<Rightarrow> failure + exporter" where
  "exportSymbols_loop fmt [] e = Inr e"
| "exportSymbols_loop fmt (symbol # symbols) e =
     (case exportSymbol fmt symbol e of
        Inl err \<Rightarrow> Inl err
      | Inr e1 \<Rightarrow> exportSymbols_loop fmt symbols e1)"

definition exportSymbols :: "format \<Rightarrow> exporter \<Rightarrow> failure + exporter" where
  "exportSymbols fmt e = exportSymbols_loop fmt (map_symbols (exp_map e)) e"

section \<open>Conditions under which the properties are stated\<close>

text \<open>
  The element symbols that \<^verbatim>\<open>exportSubPattern\<close> handles; the other symbol types are
  \<^verbatim>\<open>Q_UNREACHABLE()\<close> there.
\<close>

definition pattern_symbol_ok :: "symbol \<Rightarrow> bool" where
  "pattern_symbol_ok s \<longleftrightarrow> getType s = Point \<or> getType s = Line \<or> getType s = Area"

text \<open>
  The part types of a combined symbol: \<^verbatim>\<open>exportCombinedSymbol\<close> marks a single point or
  text part as \<^verbatim>\<open>Q_UNREACHABLE()\<close>.
\<close>

definition part_type_ok :: "symbol \<Rightarrow> bool" where
  "part_type_ok s \<longleftrightarrow> getType s = Line \<or> getType s = Area \<or> getType s = Combined"

text \<open>
  The supported decomposition cases, stated on the non-null parts of a combined symbol:
  \<^enum> exactly one part, an area or a line;
  \<^enum> one area plus one border line, from version 9 on;
  \<^enum> two or three line parts with a consistent assignment of roles: some part is a
    framing candidate and, for three parts, another is a double line filling candidate
    and the remaining main line has no border of its own.
\<close>

definition line_roles :: "line_symbol \<Rightarrow> line_symbol \<Rightarrow> line_symbol \<Rightarrow> bool" where
  "line_roles main framing double_line \<longleftrightarrow>
     maybe_framing framing \<and> maybe_double_filling double_line
     \<and> \<not> hasBorder (line_fields main)"

fun consistent_assignment :: "line_symbol list \<Rightarrow> bool" where
  "consistent_assignment [a, b] \<longleftrightarrow> maybe_framing a \<or> maybe_framing b"
| "consistent_assignment [a, b, c] \<longleftrightarrow>
     line_roles a b c \<or> line_roles a c b \<or> line_roles b a c
     \<or> line_roles b c a \<or> line_roles c a b \<or> line_roles c b a"
| "consistent_assignment _ \<longleftrightarrow> False"

fun line_parts :: "symbol list \<Rightarrow> line_symbol list option" where
  "line_parts [] = Some []"
| "line_parts (LineSym l # ps) = map_option (Cons l) (line_parts ps)"
| "line_parts (_ # ps) = None"

fun supported_combination :: "nat \<Rightarrow> symbol list \<Rightarrow> bool" where
  "supported_combination version [p] \<longleftrightarrow> getType p = Area \<or> getType p = Line"
| "supported_combination version [p, q] \<longleftrightarrow>
     (version \<ge> 9 \<and> ((getType p = Area \<and> getType q = Line)
                      \<or> (getType p = Line \<and> getType q = Area)))
     \<or> (case line_parts [p, q] of None \<Rightarrow> False | Some ls \<Rightarrow> consistent_assignment ls)"
| "supported_combination version [p, q, r] \<longleftrightarrow>
     (case line_parts [p, q, r] of None \<Rightarrow> False | Some ls \<Rightarrow> consistent_assignment ls)"
| "supported_combination version _ \<longleftrightarrow> False"

section \<open>Object encoder\<close>

definition new_entry :: index_entry where
  "new_entry =
     \<lparr> entry_bottom_left_bound = (0, 0), entry_top_right_bound = (0, 0), entry_size = 0,
       entry_symbol = 0, entry_type = 0 \<rparr>"

definition new_object :: "nat \<Rightarrow> int \<Rightarrow> ocd_object" where
  "new_object ty number =
     \<lparr> ocd_obj_type = ty, ocd_obj_symbol = number, ocd_obj_num_items = 0,
       ocd_obj_num_text = 0, ocd_obj_unicode = 0 \<rparr>"

definition object_key :: "map_object \<Rightarrow> symbol_key" where
  "object_key object = (case getSymbol object of None \<Rightarrow> NullSymbol | Some s \<Rightarrow> key_of s)"

text \<open>
  \<^verbatim>\<open>handleObjectExtras\<close>: entry members since version 9; the \<^verbatim>\<open>unicode\<close> marker of text
  objects in the version 8 specialization.
\<close>

definition handleObjectExtras ::
  "format \<Rightarrow> ocd_object \<times> index_entry \<Rightarrow> ocd_object \<times> index_entry" where
  "handleObjectExtras fmt oe =
     (if fmt_tag fmt = FormatV8
      then (if ocd_obj_type (fst oe) = 4 \<or> ocd_obj_type (fst oe) = 5
            then ((fst oe)\<lparr>ocd_obj_unicode := 1\<rparr>, snd oe)
            else oe)
      else (fst oe, (snd oe)\<lparr>entry_type := ocd_obj_type (fst oe)\<rparr>))"

definition plain_point :: "native_coord \<Rightarrow> chunk" where
  "plain_point c =
     (let p = convertPoint c
      in PointChunk \<lparr> pt_x = fst p, pt_y = snd p, pt_x_flags = {}, pt_y_flags = {} \<rparr>)"

text \<open>The five coordinates appended by \<^verbatim>\<open>exportTextCoordinatesSingle\<close>.\<close>

definition exportTextCoordinatesSingle :: "map_object \<Rightarrow> byte_array \<Rightarrow> byte_array" where
  "exportTextCoordinatesSingle object byte_array =
     (if getNumLines object = 0 then byte_array
      else case text_single_coords object of
             (c0, c1, c2, c3, c4) \<Rightarrow> byte_array @ map plain_point [c0, c1, c2, c3, c4])"

text \<open>The four coordinates appended by \<^verbatim>\<open>exportTextCoordinatesBox\<close>.\<close>

definition exportTextCoordinatesBox :: "map_object \<Rightarrow> byte_array \<Rightarrow> byte_array" where
  "exportTextCoordinatesBox object byte_array =
     (if getNumLines object = 0 then byte_array
      else case text_box_coords object of
             (c0, c1, c2, c3) \<Rightarrow> byte_array @ map plain_point [c0, c1, c2, c3])"

text \<open>\<^verbatim>\<open>exportTextData\<close>: the payload, and the truncation warning where it applies.\<close>

definition exportTextData :: "map_object \<Rightarrow> exporter \<Rightarrow> byte list \<times> exporter" where
  "exportTextData object e =
     (text_data object,
      case text_truncation_warning object of None \<Rightarrow> e | Some w \<Rightarrow> addWarning w e)"

text \<open>The conversion of an integer to an unsigned integer type of \<open>w\<close> bits.\<close>

definition narrow :: "nat \<Rightarrow> int \<Rightarrow> nat" where
  "narrow w n = nat (n mod 2 ^ w)"

text \<open>
  \<^verbatim>\<open>exportObjectCommon\<close>.  The counts and the size are converted to the types of the
  members they are stored in.  The last step is
  \<^verbatim>\<open>entry.size = decltype(entry.size)((Ocd::addPadding(data).size()));
  if (ocd_version < 11)
    entry.size = (entry.size - decltype(entry.size)(header_size)) / sizeof(Ocd::OcdPoint32);\<close>
  The difference is computed in \<^verbatim>\<open>int\<close> when the member is narrower than \<^verbatim>\<open>int\<close> (32 bits)
  and wraps in the type of the member otherwise; the division by \<^verbatim>\<open>sizeof\<close> is a division
  in \<^verbatim>\<open>std::size_t\<close>, and the quotient is converted to the type of the member.
\<close>

definition exportObjectCommon ::
  "format \<Rightarrow> map_object \<Rightarrow> ocd_object \<Rightarrow> index_entry \<Rightarrow> exporter
     \<Rightarrow> (byte_array \<times> ocd_object \<times> index_entry) \<times> exporter" where
  "exportObjectCommon fmt object ocd_object entry e =
     (let coords = getRawCoordinateVector object;
          ty = ocd_obj_type ocd_object;
          text_items = narrow (num_items_width fmt)
                         (if ty = 4 then (if getNumLines object = 0 then 0 else 5)
                          else if ty = 5 then (if getNumLines object = 0 then 0 else 4)
                          else 0);
          t = (if (ty = 4 \<or> ty = 5) \<and> text_items > 0
               then exportTextData object e else ([], e));
          ocd_object = (if ty = 4 \<or> ty = 5
                        then (if text_items > 0
                              then ocd_object\<lparr> ocd_obj_num_items := text_items,
                                     ocd_obj_num_text :=
                                       narrow (num_text_width fmt)
                                         (int (length (fst t)) div int sizeof_OcdPoint32) \<rparr>
                              else ocd_object\<lparr> ocd_obj_num_items := text_items \<rparr>)
                        else ocd_object\<lparr> ocd_obj_num_items :=
                                            narrow (num_items_width fmt) (int (length coords)) \<rparr>);
          entry = entry\<lparr> entry_bottom_left_bound := convertPoint (extent_bottomLeft object),
                         entry_top_right_bound := convertPoint (extent_topRight object) \<rparr>;
          oe = handleObjectExtras fmt (ocd_object, entry);
          ocd_object = fst oe;
          entry = snd oe;
          header_size = object_header_size fmt;
          data = [Struct header_size];
          data = (if ocd_obj_num_items ocd_object > 0
                  then (if ty = 4 then exportTextCoordinatesSingle object data @ [Bytes (fst t)]
                        else if ty = 5 then exportTextCoordinatesBox object data @ [Bytes (fst t)]
                        else snd (exportCoordinates coords (getSymbol object) data))
                  else data);
          w = entry_size_width fmt;
          entry = entry\<lparr> entry_size := narrow w (int (padded_size fmt (ba_size data))) \<rparr>;
          entry = (if ocd_version e < 11
                   then (let difference = int (entry_size entry) - int (narrow w (int header_size));
                             dividend = (if w < 32 then difference mod 2 ^ size_t_width fmt
                                         else difference mod 2 ^ w)
                         in entry\<lparr> entry_size :=
                                     narrow w (dividend div int sizeof_OcdPoint32) \<rparr>)
                   else entry)
      in ((data, ocd_object, entry), snd t))"

text \<open>
  \<^verbatim>\<open>exportPointObject\<close> and \<^verbatim>\<open>exportPathObject\<close> read \<^verbatim>\<open>symbol_numbers[object->getSymbol()]\<close>.
\<close>

definition exportPointObject ::
  "format \<Rightarrow> map_object \<Rightarrow> exporter \<Rightarrow> (byte_array \<times> ocd_object \<times> index_entry) \<times> exporter" where
  "exportPointObject fmt point e =
     (let n = symbol_numbers_at (object_key point) e
      in exportObjectCommon fmt point (new_object 1 (fst n))
           (new_entry\<lparr>entry_symbol := fst n\<rparr>) (snd n))"

definition exportPathObject ::
  "format \<Rightarrow> map_object \<Rightarrow> exporter \<Rightarrow> (byte_array \<times> ocd_object \<times> index_entry) \<times> exporter" where
  "exportPathObject fmt path e =
     (let ty = (if getSymbol path \<noteq> None \<and> symbol_contains_area path then 3 else 2);
          n = symbol_numbers_at (object_key path) e
      in exportObjectCommon fmt path (new_object ty (fst n))
           (new_entry\<lparr>entry_symbol := fst n\<rparr>) (snd n))"

text \<open>
  \<^verbatim>\<open>exportTextObject\<close> looks the symbol and alignment up in \<^verbatim>\<open>text_format_mapping\<close>;
  \<^verbatim>\<open>Q_ASSERT(symbol_mapping != end(text_format_mapping))\<close>.
\<close>

definition exportTextObject ::
  "format \<Rightarrow> map_object \<Rightarrow> exporter
     \<Rightarrow> failure + ((byte_array \<times> ocd_object \<times> index_entry) \<times> exporter)" where
  "exportTextObject fmt text e =
     (case find (match_alignment (object_key text) (getHorizontalAlignment text))
             (text_format_mapping e) of
        None \<Rightarrow> Inl (Unreachable, e)
      | Some symbol_mapping \<Rightarrow>
          Inr (exportObjectCommon fmt text
                 (new_object (if hasSingleAnchor text then 4 else 5) (snd (snd symbol_mapping)))
                 (new_entry\<lparr>entry_symbol := snd (snd symbol_mapping)\<rparr>) e))"

definition insert_object :: "byte_array \<times> ocd_object \<times> index_entry \<Rightarrow> exporter \<Rightarrow> exporter" where
  "insert_object r e =
     e\<lparr>out_file := (out_file e)\<lparr>file_objects :=
          file_objects (out_file e) @ [(fst r, snd (snd r))]\<rparr>\<rparr>"

definition exportObject :: "format \<Rightarrow> map_object \<Rightarrow> exporter \<Rightarrow> failure + exporter" where
  "exportObject fmt object e =
     (case obj_type object of
        PointObject \<Rightarrow>
          (let r = exportPointObject fmt object e in Inr (insert_object (fst r) (snd r)))
      | PathObject \<Rightarrow>
          (let r = exportPathObject fmt object e in Inr (insert_object (fst r) (snd r)))
      | TextObject \<Rightarrow>
          (case exportTextObject fmt object e of
             Inl err \<Rightarrow> Inl err
           | Inr r \<Rightarrow> Inr (insert_object (fst r) (snd r))))"

text \<open>The two nested loops of \<^verbatim>\<open>exportObjects\<close>, over the parts and their objects.\<close>

fun exportObjects_loop :: "format \<Rightarrow> map_object list \<Rightarrow> exporter \<Rightarrow> failure + exporter" where
  "exportObjects_loop fmt [] e = Inr e"
| "exportObjects_loop fmt (object # objects) e =
     (case exportObject fmt object e of
        Inl err \<Rightarrow> Inl err
      | Inr e1 \<Rightarrow> exportObjects_loop fmt objects e1)"

definition exportObjects :: "format \<Rightarrow> exporter \<Rightarrow> failure + exporter" where
  "exportObjects fmt e = exportObjects_loop fmt (concat (map_parts (exp_map e))) e"

section \<open>Setup and the export pipeline\<close>

definition set_file :: "(ocd_file \<Rightarrow> ocd_file) \<Rightarrow> exporter \<Rightarrow> exporter" where
  "set_file f e = e\<lparr>out_file := f (out_file e)\<rparr>"

text \<open>
  The notes block of the version 8 \<^verbatim>\<open>exportSetup\<close>:
  \<^verbatim>\<open>auto size = notes.size() + 1;
  if (size > 32768) { size = 32768; notes.truncate(23767); }
  file.header()->info_pos = quint32(file.byteArray().size());
  file.header()->info_size = quint32(size);
  file.byteArray().append(notes).append('\0');\<close>
\<close>

definition exportSetupV8_notes :: "exporter \<Rightarrow> exporter" where
  "exportSetupV8_notes e =
     (let notes = encoded_notes (exp_map e)
      in if notes \<noteq> []
         then (let size' = length notes + 1;
                   truncated = (size' > 32768);
                   size' = (if truncated then 32768 else size');
                   notes = (if truncated then take 23767 notes else notes)
               in set_file (\<lambda>f. f\<lparr> header_info_pos := ba_size (byteArray f),
                                    header_info_size := size',
                                    byteArray := byteArray f @ [Bytes notes, Bytes [0]] \<rparr>) e)
         else e)"

text \<open>\<^verbatim>\<open>addColor(color, ocd_number)\<close> writes \<^verbatim>\<open>symbol_header.color_info[ocd_number]\<close>.\<close>

definition addColor :: "color \<Rightarrow> nat \<Rightarrow> exporter \<Rightarrow> exporter" where
  "addColor color ocd_number e =
     set_file (\<lambda>f. f\<lparr>color_info := color_info f @ [(ocd_number, color)]\<rparr>) e"

fun addColors :: "color list \<Rightarrow> nat \<Rightarrow> exporter \<Rightarrow> nat \<times> exporter" where
  "addColors [] ocd_number e = (ocd_number, e)"
| "addColors (c # cs) ocd_number e = addColors cs (Suc ocd_number) (addColor c ocd_number e)"

text \<open>
  The colour block of the version 8 \<^verbatim>\<open>exportSetup\<close>, with the check
  \<^verbatim>\<open>if (num_colors > (uses_registration_color ? 255 : 256)) throw FileFormatException(...)\<close>.
\<close>

definition exportSetupV8_colors :: "exporter \<Rightarrow> failure + exporter" where
  "exportSetupV8_colors e =
     (let num_colors = length (map_colors (exp_map e))
      in if num_colors > (if uses_registration_color e then 255 else 256)
         then Inl (FileFormatException
                ''The map contains more than 256 colors which is not supported by ocd version 8.'',
                e)
         else (let r0 = (if uses_registration_color e
                         then (1, addColor (registration_color (exp_map e)) 0
                                    (addWarning ''Registration black is exported as a regular color.'' e))
                         else (0, e));
                   r = addColors (map_colors (exp_map e)) (fst r0) (snd r0);
                   e2 = set_file (\<lambda>f. f\<lparr>header_num_colors := fst r\<rparr>) (snd r)
               in Inr (addWarning ''Spot color information was ignored.'' e2)))"

text \<open>
  The specialization \<^verbatim>\<open>exportSetup(OcdFile<Ocd::FormatV8>&)\<close>.  Its first block fills the
  setup struct from the georeferencing and the view (floating-point values, not
  modelled); the notes and the colours follow.
\<close>

definition exportSetupV8 :: "exporter \<Rightarrow> failure + exporter" where
  "exportSetupV8 e = exportSetupV8_colors (exportSetupV8_notes e)"

text \<open>\<^verbatim>\<open>addParameterString(string_type, string)\<close>\<close>

definition addParameterString :: "int \<Rightarrow> parameter_string \<Rightarrow> exporter \<Rightarrow> exporter" where
  "addParameterString string_type s e =
     set_file (\<lambda>f. f\<lparr>file_strings := file_strings f @ [(string_type, s)]\<rparr>) e"

fun addColorStrings :: "color list \<Rightarrow> nat \<Rightarrow> exporter \<Rightarrow> exporter" where
  "addColorStrings [] ocd_number e = e"
| "addColorStrings (c # cs) ocd_number e =
     addColorStrings cs (Suc ocd_number) (addParameterString 9 (ColorString ocd_number c) e)"

text \<open>\<^verbatim>\<open>exportSetup(quint16 ocd_version)\<close>, for the formats with parameter strings.\<close>

definition exportSetup_strings :: "nat \<Rightarrow> exporter \<Rightarrow> exporter" where
  "exportSetup_strings version e =
     (let e1 = addParameterString 1039 (ScalePar version) e;
          e2 = (if version \<ge> 9
                then addParameterString (if version \<ge> 11 then 1061 else 11)
                       (MapNotes (encoded_notes (exp_map e1))) e1
                else e1);
          e3 = (if uses_registration_color e2
                then addParameterString 9 (ColorString 0 (registration_color (exp_map e2)))
                       (addWarning ''Registration black is exported as a regular color.'' e2)
                else e2);
          e4 = addColorStrings (map_colors (exp_map e3))
                 (if uses_registration_color e2 then 1 else 0) e3
      in addWarning ''Spot color information was ignored.'' e4)"

definition exportSetup :: "format \<Rightarrow> exporter \<Rightarrow> failure + exporter" where
  "exportSetup fmt e =
     (if fmt_tag fmt = FormatV8 then exportSetupV8 e
      else Inr (exportSetup_strings (header_version (out_file e)) e))"

text \<open>\<^verbatim>\<open>OcdFile<Format> file;\<close> and \<^verbatim>\<open>setupFileHeaderGeneric\<close>.\<close>

definition new_file :: "format \<Rightarrow> ocd_file" where
  "new_file fmt =
     \<lparr> header_version = 0, header_file_type = TypeNone_file, header_info_pos = 0,
       header_info_size = 0, byteArray = [Struct (file_header_size fmt)], color_info = [],
       header_num_colors = 0, file_strings = [], file_symbols = [], file_objects = [] \<rparr>"

definition setupFileHeaderGeneric :: "nat \<Rightarrow> ocd_file \<Rightarrow> ocd_file" where
  "setupFileHeaderGeneric actual_version header =
     header\<lparr> header_version := actual_version,
             header_file_type := (if actual_version = 8 then TypeMapV8 else TypeMap) \<rparr>"

text \<open>
  \<^verbatim>\<open>determineEncoding\<close>: only the custom 8-bit encoding consults the settings and may
  warn; the codec itself is not modelled.
\<close>

definition determineEncoding :: "format \<Rightarrow> exporter \<Rightarrow> exporter" where
  "determineEncoding fmt e =
     (if custom_8bit fmt \<and> \<not> codec_available (exp_map e)
      then addWarning ''Encoding is not available. Check the settings.'' e
      else e)"

text \<open>\<^verbatim>\<open>calculateAreaOffset\<close>, by its outcome: the warnings and the returned offset.\<close>

definition calculateAreaOffset :: "exporter \<Rightarrow> native_coord \<times> exporter" where
  "calculateAreaOffset e =
     (fst (area_offset_outcome (exp_map e)),
      fold addWarning (snd (area_offset_outcome (exp_map e))) e)"

text \<open>
  \<^verbatim>\<open>exportImplementation<Format>(actual_version)\<close>.  An exception leaves the function
  before \<^verbatim>\<open>stream->write(file.constByteArray())\<close>, the only write to the output device.
\<close>

definition exportImplementation :: "format \<Rightarrow> nat \<Rightarrow> exporter \<Rightarrow> failure + exporter" where
  "exportImplementation fmt actual_version e =
     (let e = addWarning ''OcdFileExport: WORK IN PROGRESS, FILE INCOMPLETE'' e;
          e = e\<lparr>ocd_version := actual_version\<rparr>;
          e = e\<lparr>out_file := new_file fmt\<rparr>;
          e = determineEncoding fmt e;
          a = calculateAreaOffset e;
          e = (snd a)\<lparr>area_offset := fst a\<rparr>;
          e = e\<lparr>uses_registration_color := registration_color_used (exp_map e)\<rparr>;
          e = set_file (setupFileHeaderGeneric actual_version) e
      in case exportSetup fmt e of
           Inl err \<Rightarrow> Inl err
         | Inr e \<Rightarrow>
        (case exportSymbols fmt e of
           Inl err \<Rightarrow> Inl err
         | Inr e \<Rightarrow>
        (case exportObjects fmt e of
           Inl err \<Rightarrow> Inl err
         | Inr e \<Rightarrow> Inr (e\<lparr>stream := stream e @ [out_file e]\<rparr>))))"

text \<open>
  \<^verbatim>\<open>doExport\<close> for a requested version; \<open>layout\<close> gives the layout constants of each
  format.  Version 0 delegates to the legacy exporter \<^verbatim>\<open>OCAD8FileExport\<close>, a class of its
  own, taken as the parameter \<open>legacy\<close>.
\<close>

definition doExport ::
  "(format_tag \<Rightarrow> format) \<Rightarrow> (exporter \<Rightarrow> failure + exporter) \<Rightarrow> nat \<Rightarrow> exporter
     \<Rightarrow> failure + exporter" where
  "doExport layout legacy version e =
     (if version = 0 then legacy e
      else if version = 8 then exportImplementation (layout FormatV8) 8 e
      else if version = 9 then exportImplementation (layout FormatV9) 9 e
      else if version = 10 then exportImplementation (layout FormatV9) 10 e
      else if version = 11 then exportImplementation (layout FormatV11) 11 e
      else if version = 12 then exportImplementation (layout FormatV12) 12 e
      else Inl (FileFormatException
                  ''Could not write file: OCD files of this version are not supported!'', e))"

text \<open>The constructor: nothing exported, no warnings, empty tables.\<close>

definition no_file :: ocd_file where
  "no_file =
     \<lparr> header_version = 0, header_file_type = TypeNone_file, header_info_pos = 0,
       header_info_size = 0, byteArray = [], color_info = [],
       header_num_colors = 0, file_strings = [], file_symbols = [], file_objects = [] \<rparr>"

definition OcdFileExport :: "map_model \<Rightarrow> exporter" where
  "OcdFileExport m =
     \<lparr> exp_map = m, out_file = no_file, ocd_version = 0, uses_registration_color = False,
       area_offset = (0, 0), symbol_numbers = [], text_format_mapping = [], warnings = [],
       allocations = 0, stream = [] \<rparr>"

section \<open>States of the pipeline\<close>

text \<open>The state in which \<^verbatim>\<open>exportImplementation\<close> calls \<^verbatim>\<open>exportSetup\<close>.\<close>

definition before_setup :: "format \<Rightarrow> nat \<Rightarrow> exporter \<Rightarrow> exporter" where
  "before_setup fmt actual_version e =
     (let e = addWarning ''OcdFileExport: WORK IN PROGRESS, FILE INCOMPLETE'' e;
          e = e\<lparr>ocd_version := actual_version\<rparr>;
          e = e\<lparr>out_file := new_file fmt\<rparr>;
          e = determineEncoding fmt e;
          a = calculateAreaOffset e;
          e = (snd a)\<lparr>area_offset := fst a\<rparr>;
          e = e\<lparr>uses_registration_color := registration_color_used (exp_map e)\<rparr>
      in set_file (setupFileHeaderGeneric actual_version) e)"

text \<open>
  The outcome of a combination that is not exported: the warning is appended, no symbol
  record is inserted and no number is assigned.
\<close>

definition dropped_with_warning :: "combined_symbol \<Rightarrow> exporter \<Rightarrow> exporter \<Rightarrow> bool" where
  "dropped_with_warning c e e' \<longleftrightarrow>
     warnings e' = warnings e @ [''Unhandled combined symbol: '' @ sym_name (combined_base c)]
     \<and> file_symbols (out_file e') = file_symbols (out_file e)
     \<and> symbol_numbers e' = symbol_numbers e"

section \<open>Sample inputs\<close>

text \<open>
  Layout constants for the examples.  The true record sizes are those of the structs in
  the format headers; the examples use the number factors \<open>10\<close> and \<open>1000\<close> and sizes that
  are multiples of 8, with padding to the next multiple of 8, members of 16 bits in the
  version 8 layout and of 32 bits in the others (16 bits for \<^verbatim>\<open>num_text\<close>), and a
  \<^verbatim>\<open>std::size_t\<close> of 64 bits.
\<close>

definition sample_layout :: "format_tag \<Rightarrow> format" where
  "sample_layout tag =
     \<lparr> fmt_tag = tag,
       fmt_version = (case tag of FormatV8 \<Rightarrow> 8 | FormatV9 \<Rightarrow> 9 | FormatV11 \<Rightarrow> 11 | FormatV12 \<Rightarrow> 12),
       symbol_number_factor = (if tag = FormatV8 then 10 else 1000),
       point_header_size = 576, area_header_size = 608, line_header_size = 640,
       text_symbol_size = 688, object_header_size = 40, file_header_size = 48,
       custom_8bit = (tag = FormatV8 \<or> tag = FormatV9),
       padded_size = (\<lambda>n. (n + 7) div 8 * 8),
       entry_size_width = (if tag = FormatV8 then 16 else 32),
       num_items_width = (if tag = FormatV8 then 16 else 32),
       num_text_width = 16,
       size_t_width = 64 \<rparr>"

definition sample_base :: "nat \<Rightarrow> int \<Rightarrow> int \<Rightarrow> string \<Rightarrow> symbol_base" where
  "sample_base k n0 n1 nm =
     \<lparr> sym_key = Original k, sym_number = [n0, n1, - 1], sym_name = nm,
       sym_hidden = False, sym_protected = False \<rparr>"

definition sample_coord :: "int \<Rightarrow> int \<Rightarrow> map_coord" where
  "sample_coord x y =
     \<lparr> nativeX = word_of_int x, nativeY = word_of_int y, isDashPoint = False,
       isCurveStart = False, isHolePoint = False \<rparr>"

text \<open>A plain line symbol, number 2.0.\<close>

definition sample_line :: line_symbol where
  "sample_line =
     LineSymbol (sample_base 7 2 0 ''line'')
       \<lparr> getLineWidth = 200, getLineColor = Some 1, getCapStyle = FlatCap,
         getJoinStyle = BevelJoin, hasBorder = False, isDashed = False \<rparr>
       None None None None"

text \<open>
  A point symbol, number 5.0, with an inner dot and one line element of two coordinates.
\<close>

definition sample_point :: point_symbol where
  "sample_point =
     PointSymbol (sample_base 2 5 0 ''point'')
       \<lparr> getInnerRadius = 100, getInnerColor = Some 0, getOuterWidth = 0,
         getOuterColor = None, point_isEmpty = False \<rparr>
       [(LineSym sample_line, [sample_coord 0 0, sample_coord 1000 0])]"

text \<open>A text symbol, number 5.0 as well.\<close>

definition sample_text :: text_symbol where
  "sample_text = TextSymbol (sample_base 1 5 0 ''text'')"

text \<open>A dashed line symbol, and a combined symbol of two private dashed lines.\<close>

definition sample_dashed :: "nat \<Rightarrow> line_symbol" where
  "sample_dashed k =
     LineSymbol (sample_base k 2 1 ''dashed'')
       \<lparr> getLineWidth = 200, getLineColor = Some 1, getCapStyle = FlatCap,
         getJoinStyle = BevelJoin, hasBorder = False, isDashed = True \<rparr>
       None None None None"

definition sample_combined :: combined_symbol where
  "sample_combined =
     CombinedSymbol (sample_base 3 9 0 ''C'')
       [(Some (LineSym (sample_dashed 8)), True), (Some (LineSym (sample_dashed 9)), True)]"

definition sample_object :: "object_type \<Rightarrow> symbol \<Rightarrow> int \<Rightarrow> map_object" where
  "sample_object ty s alignment =
     \<lparr> obj_type = ty, getSymbol = Some s, symbol_contains_area = False,
       getRawCoordinateVector = [sample_coord 0 0, sample_coord 1000 0, sample_coord 1000 1000],
       getHorizontalAlignment = alignment, getNumLines = 1, hasSingleAnchor = True,
       extent_bottomLeft = (0, 0), extent_topRight = (1000, 1000),
       text_single_coords = ((0, 0), (0, 0), (1000, 0), (1000, 1000), (0, 1000)),
       text_box_coords = ((0, 0), (1000, 0), (1000, 1000), (0, 1000)),
       text_data = replicate 64 0, text_truncation_warning = None \<rparr>"

definition sample_map :: "color list \<Rightarrow> symbol list \<Rightarrow> map_object list \<Rightarrow> byte list \<Rightarrow> map_model" where
  "sample_map cs syms objs notes =
     \<lparr> map_colors = cs, map_symbols = syms, map_parts = [objs], encoded_notes = notes,
       registration_color_used = False, registration_color = 900,
       area_offset_outcome = ((0, 0), []), codec_available = True \<rparr>"

text \<open>
  A text symbol used with two alignments, followed by a point symbol with the same
  number 5.0.
\<close>

definition colliding_map :: map_model where
  "colliding_map =
     sample_map [0, 1] [TextSym sample_text, PointSym sample_point]
       [sample_object TextObject (TextSym sample_text) 0,
        sample_object TextObject (TextSym sample_text) 1] []"

text \<open>The combined symbol of two dashed lines and a path object drawn with it.\<close>

definition undecomposed_map :: map_model where
  "undecomposed_map =
     sample_map [0, 1] [CombinedSym sample_combined]
       [sample_object PathObject (CombinedSym sample_combined) 0] []"

text \<open>
  A map of 257 colours, a map with notes of 40000 bytes and a map with notes of 2 bytes.
\<close>

definition many_colors_map :: map_model where
  "many_colors_map = sample_map [0 ..< 257] [] [] []"



section \<open>Word lemmas for the coordinate encoding\<close>

lemma and_mask23: "(0x7fffff :: 32 word) AND w = take_bit 23 w"
proof -
  have "(0x7fffff :: 32 word) = mask 23" by (simp add: mask_eq_exp_minus_1)
  then show ?thesis by (simp add: take_bit_eq_mask and.commute)
qed

lemma take_bit23_of_int:
  "take_bit 23 (word_of_int q :: 32 word) = word_of_int (q mod 2 ^ 23)"
proof -
  have "take_bit 23 (word_of_int q :: 32 word) = word_of_int (take_bit 23 q)"
    by (rule bit_word_eqI) (auto simp add: bit_simps)
  then show ?thesis by (simp only: take_bit_eq_mod)
qed

lemma sign_bit_disjoint:
  "(0x80000000 :: 32 word) OR push_bit 8 (take_bit 23 w)
     = 0x80000000 + push_bit 8 (take_bit 23 w)"
proof -
  have e: "(0x80000000 :: 32 word) = 2 ^ 31" by simp
  have "(2 ^ 31 :: 32 word) + push_bit 8 (take_bit 23 w)
          = 2 ^ 31 OR push_bit 8 (take_bit 23 w)"
  proof (rule disjunctive_add)
    fix n
    show "\<not> bit (2 ^ 31 :: 32 word) n \<or> \<not> bit (push_bit 8 (take_bit 23 w)) n"
      by (simp only: bit_exp_iff bit_push_bit_iff bit_take_bit_iff) auto
  qed
  then show ?thesis by (simp only: e)
qed

lemma sint_of_int_small:
  "- (2 ^ 31) \<le> k \<Longrightarrow> k < 2 ^ 31 \<Longrightarrow> sint (word_of_int k :: 32 word) = k"
  by (simp only: sint_sbintrunc' signed_take_bit_int_eq_self_iff) simp

lemma encode_nonneg:
  assumes "0 \<le> q" "q < 2 ^ 23"
  shows "sint (push_bit 8 (0x7fffff AND (word_of_int q :: 32 word))) = 256 * q"
proof -
  have "q mod 2 ^ 23 = q" using assms by simp
  then have "push_bit 8 (0x7fffff AND (word_of_int q :: 32 word)) = word_of_int (256 * q)"
    by (simp add: and_mask23 take_bit23_of_int push_bit_eq_mult)
  moreover have "sint (word_of_int (256 * q) :: 32 word) = 256 * q"
    using assms by (intro sint_of_int_small) auto
  ultimately show ?thesis by (simp only:)
qed

lemma encode_neg:
  assumes "- (2 ^ 23) \<le> q" "q < 0"
  shows "sint (0x80000000 OR push_bit 8 (0x7fffff AND (word_of_int q :: 32 word))) = 256 * q"
proof -
  have "(q + 2 ^ 23) mod 2 ^ 23 = q + 2 ^ 23"
    using assms by (intro mod_pos_pos_trivial) auto
  then have m: "q mod 2 ^ 23 = q + 2 ^ 23" by simp
  have a: "0x7fffff AND (word_of_int q :: 32 word) = word_of_int (q + 2 ^ 23)"
    by (simp only: and_mask23 take_bit23_of_int m)
  have b: "push_bit 8 (word_of_int (q + 2 ^ 23) :: 32 word) = word_of_int (256 * q + 2 ^ 31)"
    by (simp add: push_bit_eq_mult algebra_simps)
  have c: "0x80000000 OR push_bit 8 (0x7fffff AND (word_of_int q :: 32 word))
        = 0x80000000 + push_bit 8 (0x7fffff AND (word_of_int q :: 32 word))"
    by (simp only: and_mask23 sign_bit_disjoint)
  have d: "(0x80000000 :: 32 word) + word_of_int (256 * q + 2 ^ 31) = word_of_int (256 * q)"
    by simp
  have "0x80000000 OR push_bit 8 (0x7fffff AND (word_of_int q :: 32 word))
        = 0x80000000 + push_bit 8 (0x7fffff AND (word_of_int q :: 32 word))"
    by (rule c)
  also have "\<dots> = 0x80000000 + word_of_int (256 * q + 2 ^ 31)"
    by (simp only: a b)
  also have "\<dots> = word_of_int (256 * q)"
    by (rule d)
  finally have "0x80000000 OR push_bit 8 (0x7fffff AND (word_of_int q :: 32 word))
                  = word_of_int (256 * q)" .
  moreover have "sint (word_of_int (256 * q) :: 32 word) = 256 * q"
    using assms by (intro sint_of_int_small) auto
  ultimately show ?thesis by (simp only:)
qed

lemma sint_plus5: "sint v \<le> 2147483642 \<Longrightarrow> sint ((v::32 word) + 5) = sint v + 5"
  using sint_ge [of v] by (simp add: sint_word_add signed_take_bit_int_eq_self)

lemma sint_minus4: "- 2147483644 \<le> sint v \<Longrightarrow> sint ((v::32 word) - 4) = sint v - 4"
  using sint_lt [of v] by (simp add: sint_word_diff signed_take_bit_int_eq_self)

lemma sdiv10_nonneg: "0 \<le> (a::int) \<Longrightarrow> a sdiv 10 = a div 10"
  by (simp add: signed_divide_int_def sgn_if)

lemma sdiv10_neg: "(a::int) < 0 \<Longrightarrow> a sdiv 10 = (a + 9) div 10"
  by (simp add: signed_divide_int_def sgn_if)

section \<open>Coordinate conversion rounds half up\<close>

text \<open>
  Claim C1, as amended.  The upper 24 bits of the result hold a signed fixed-point
  number, the low byte is left for flags.  For every coordinate \<open>v\<close> whose scaled value
  \<open>\<lfloor>(v + 5) / 10\<rfloor>\<close> fits these 24 bits, that is for \<open>-83886085 \<le> v \<le> 83886074\<close>, the
  result read as a signed 32-bit number is \<open>256 * \<lfloor>(v + 5) / 10\<rfloor>\<close>: scaling by 1/10 with
  round-half-up for both signs.  The value changes exactly when \<open>v\<close> passes an odd
  multiple of 5 (\<open>-15\<close>, \<open>-5\<close>, \<open>5\<close>, \<open>15\<close> within \<open>[-20, 20]\<close>).
\<close>

theorem convertPointMember_round_half_up:
  assumes "- 83886085 \<le> sint v" and "sint v \<le> 83886074"
  shows "sint (convertPointMember v) = 256 * ((sint v + 5) div 10)"
proof (cases "v <s -5")
  case True
  then have lt: "sint v < -5" by (simp add: word_sless_alt)
  have s4: "sint (v - 4) = sint v - 4" using assms by (intro sint_minus4) simp
  have q: "sint (v - 4) sdiv sint (10 :: 32 word) = (sint v + 5) div 10"
    using lt by (simp add: s4 sdiv10_neg)
  have "- (2 ^ 23) \<le> (sint v + 5) div 10" "(sint v + 5) div 10 < 0"
    using assms lt by auto
  then show ?thesis using True
    by (simp only: convertPointMember_def word_sdiv_def q if_True encode_neg)
next
  case False
  then have ge: "-5 \<le> sint v" by (simp add: word_sless_alt)
  have s5: "sint (v + 5) = sint v + 5" using assms by (intro sint_plus5) simp
  have q: "sint (v + 5) sdiv sint (10 :: 32 word) = (sint v + 5) div 10"
    using ge by (simp add: s5 sdiv10_nonneg)
  have "0 \<le> (sint v + 5) div 10" "(sint v + 5) div 10 < 2 ^ 23"
    using assms ge by auto
  then show ?thesis using False
    by (simp only: convertPointMember_def word_sdiv_def q if_False encode_nonneg)
qed

text \<open>The theorem at \<open>v = -6\<close>: the scaled value is \<open>-1\<close>, stored as \<open>0xffffff00\<close>.\<close>

theorem convertPointMember_round_half_up_witness:
  "- 83886085 \<le> sint (- 6 :: qint32) \<and> sint (- 6 :: qint32) \<le> 83886074
     \<and> sint (convertPointMember (- 6)) = - 256"
  using convertPointMember_round_half_up [of "- 6"] by simp

text \<open>
  Claim C1 as stated, for every 32-bit coordinate, fails: at \<open>v = 83886075\<close> the scaled
  value is \<open>8388608 = 2^23\<close>, the mask \<open>0x7fffff\<close> cuts it off and the result is \<open>0\<close>.
\<close>

theorem convertPointMember_out_of_range:
  "sint (convertPointMember 83886075) \<noteq> 256 * ((sint (83886075 :: qint32) + 5) div 10)"
  by (simp add: convertPointMember_def word_sdiv_def signed_divide_int_def)

section \<open>Both palette searches return a palette colour's own index\<close>

lemma distanceV9_nonneg: "0 \<le> distanceV9 c p"
  by (auto simp add: distanceV9_def sq_def split: prod.splits)

lemma distanceV9_zero_iff: "distanceV9 c p = 0 \<longleftrightarrow> c = p"
proof -
  obtain r g b pr pg pb where c: "c = (r, g, b)" and p: "p = (pr, pg, pb)"
    by (metis prod_cases3)
  have "2 * ((r - pr) * (r - pr)) + 4 * ((g - pg) * (g - pg)) + 3 * ((b - pb) * (b - pb)) = 0
        \<longleftrightarrow> r - pr = 0 \<and> g - pg = 0 \<and> b - pb = 0"
    (is "?l = 0 \<longleftrightarrow> _")
  proof
    assume z: "?l = 0"
    have "0 \<le> (r - pr) * (r - pr)" "0 \<le> (g - pg) * (g - pg)" "0 \<le> (b - pb) * (b - pb)"
      by simp_all
    with z have "(r - pr) * (r - pr) = 0" "(g - pg) * (g - pg) = 0" "(b - pb) * (b - pb) = 0"
      by linarith+
    then show "r - pr = 0 \<and> g - pg = 0 \<and> b - pb = 0" by simp
  qed simp
  then show ?thesis by (auto simp add: c p distanceV9_def sq_def)
qed

lemma searchV9_settled: "searchV9 c ps i (k, 0) = (k, 0)"
proof (induction ps arbitrary: i)
  case Nil
  show ?case by simp
next
  case (Cons p ps)
  have "\<not> distanceV9 c p < 0" using distanceV9_nonneg [of c p] by linarith
  then show ?case by (simp add: Let_def Cons.IH)
qed

lemma searchV9_self:
  "distinct ps \<Longrightarrow> n < length ps \<Longrightarrow> 0 < bd \<Longrightarrow>
     fst (searchV9 (ps ! n) ps i (bi, bd)) = i + n"
proof (induction ps arbitrary: n i bi bd)
  case Nil
  then show ?case by simp
next
  case (Cons p ps)
  show ?case
  proof (cases n)
    case 0
    have "distanceV9 p p = 0" by (simp add: distanceV9_zero_iff)
    then show ?thesis using Cons.prems 0 by (simp add: Let_def searchV9_settled)
  next
    case (Suc m)
    with Cons.prems have m: "m < length ps" and d: "distinct ps" and ne: "ps ! m \<noteq> p"
      by auto
    have pos: "0 < distanceV9 (ps ! m) p"
      using distanceV9_nonneg [of "ps ! m" p] distanceV9_zero_iff [of "ps ! m" p] ne
      by linarith
    show ?thesis
    proof (cases "distanceV9 (ps ! m) p < bd")
      case True
      then show ?thesis using Cons.IH [OF d m pos, of "Suc i" i] Suc by (simp add: Let_def)
    next
      case False
      then show ?thesis using Cons.IH [OF d m Cons.prems(3), of "Suc i" bi] Suc
        by (simp add: Let_def)
    qed
  qed
qed

lemma length_paletteV9: "length paletteV9 = 125"
  by (simp add: paletteV9_def)

lemma distinct_paletteV9: "distinct paletteV9"
  by (simp add: paletteV9_def)

lemma getPaletteColorV9_self:
  assumes i: "i < 125"
  shows "getPaletteColorV9 (paletteV9 ! i) = i"
proof (cases "paletteV9 ! i = (255, 255, 255)")
  case True
  have "paletteV9 ! 124 = (255, 255, 255)" by (simp add: paletteV9_def)
  with True have "paletteV9 ! i = paletteV9 ! 124" by simp
  then have "i = 124" using i distinct_paletteV9 length_paletteV9
    by (simp add: nth_eq_iff_index_eq)
  then show ?thesis using True by (simp add: getPaletteColorV9_def)
next
  case False
  show ?thesis using False searchV9_self [OF distinct_paletteV9, of i 10000 0 0] i
    by (simp add: getPaletteColorV9_def length_paletteV9)
qed

lemma V6_idem_map:
  assumes "map toHsv original_palette = paletteV6"
  shows "map (getPaletteColorV6 toHsv) original_palette = [0..<16]"
proof -
  have u: "[0..<16] = [0,1,2,3,4,5,6,7,8,9,10,11,12,13,14,15::nat]"
    by (simp add: upt_rec)
  from assms have h:
    "toHsv (0, 0, 0) = (- 1, 0, 0)" "toHsv (128, 0, 0) = (0, 255, 128)"
    "toHsv (0, 128, 0) = (120, 255, 128)" "toHsv (128, 128, 0) = (60, 255, 128)"
    "toHsv (0, 0, 128) = (240, 255, 128)" "toHsv (128, 0, 128) = (300, 255, 128)"
    "toHsv (0, 128, 128) = (180, 255, 128)" "toHsv (128, 128, 128) = (- 1, 0, 128)"
    "toHsv (192, 192, 192) = (- 1, 0, 192)" "toHsv (255, 0, 0) = (0, 255, 255)"
    "toHsv (0, 255, 0) = (120, 255, 255)" "toHsv (255, 255, 0) = (60, 255, 255)"
    "toHsv (0, 0, 255) = (240, 255, 255)" "toHsv (255, 0, 255) = (300, 255, 255)"
    "toHsv (0, 255, 255) = (180, 255, 255)"
    by (simp_all add: original_palette_def paletteV6_def)
  show ?thesis
    unfolding u original_palette_def
    by (simp add: h getPaletteColorV6_def qGray_def distanceV6_def paletteV6_def sq_def Let_def)
qed

lemma getPaletteColorV6_self:
  assumes "map toHsv original_palette = paletteV6" and "i < 16"
  shows "getPaletteColorV6 toHsv (original_palette ! i) = i"
proof -
  have "length original_palette = 16" by (simp add: original_palette_def)
  with assms(2) have "map (getPaletteColorV6 toHsv) original_palette ! i
        = getPaletteColorV6 toHsv (original_palette ! i)" by simp
  moreover have "[0..<16] ! i = i" using assms(2) by simp
  ultimately show ?thesis using V6_idem_map [OF assms(1)] by simp
qed

lemma table_toHsv_palette: "map table_toHsv original_palette = paletteV6"
  by (simp add: table_toHsv_def original_palette_def paletteV6_def)

text \<open>
  Claim C10.  Quantizing a colour that is an entry of the fixed palette returns the
  entry's own index: for each of the 125 entries of the V9 table, and for each of the 16
  colours of the V6 palette, given that Qt's HSV conversion maps the sixteen RGB colours
  to the table \<^verbatim>\<open>palette[16]\<close> (which is how the source generated the table).  Pure white
  has index 124 resp. 15.
\<close>

theorem palette_quantizers_idempotent:
  "(\<forall>i < 125. getPaletteColorV9 (paletteV9 ! i) = i)
   \<and> paletteV9 ! 124 = (255, 255, 255)
   \<and> (map toHsv original_palette = paletteV6 \<longrightarrow>
        (\<forall>i < 16. getPaletteColorV6 toHsv (original_palette ! i) = i))
   \<and> original_palette ! 15 = (255, 255, 255)"
proof (intro conjI allI impI)
  fix i :: nat assume "i < 125"
  then show "getPaletteColorV9 (paletteV9 ! i) = i" by (rule getPaletteColorV9_self)
next
  show "paletteV9 ! 124 = (255, 255, 255)" by (simp add: paletteV9_def)
next
  fix i :: nat assume "map toHsv original_palette = paletteV6" "i < 16"
  then show "getPaletteColorV6 toHsv (original_palette ! i) = i"
    by (rule getPaletteColorV6_self)
next
  show "original_palette ! 15 = (255, 255, 255)" by (simp add: original_palette_def)
qed

text \<open>
  The theorem at the tabulated conversion: mid grey-blue (entry 62 of the V9 table)
  and pure red (entry 9 of the V6 palette) keep their indices.
\<close>

theorem palette_quantizers_idempotent_witness:
  "(62::nat) < 125 \<and> getPaletteColorV9 (paletteV9 ! 62) = 62
   \<and> map table_toHsv original_palette = paletteV6
   \<and> (9::nat) < 16 \<and> getPaletteColorV6 table_toHsv (original_palette ! 9) = 9"
  using palette_quantizers_idempotent [of table_toHsv] table_toHsv_palette by simp


section \<open>Colour indices\<close>

lemma findColorIndex_from_absent:
  "c \<notin> set xs \<Longrightarrow> findColorIndex_from i xs c = - 1"
  by (induction xs arbitrary: i) auto

lemma findColorIndex_from_present:
  "c \<in> set xs \<Longrightarrow>
     \<exists>n < length xs. xs ! n = c \<and> c \<notin> set (take n xs) \<and> findColorIndex_from i xs c = i + int n"
proof (induction xs arbitrary: i)
  case Nil
  then show ?case by simp
next
  case (Cons x xs)
  show ?case
  proof (cases "x = c")
    case True
    then show ?thesis by (intro exI [of _ 0]) simp
  next
    case False
    with Cons.prems have "c \<in> set xs" by simp
    from Cons.IH [OF this, of "i + 1"] obtain n where
      n: "n < length xs" "xs ! n = c" "c \<notin> set (take n xs)"
         "findColorIndex_from (i + 1) xs c = i + 1 + int n" by blast
    show ?thesis using False n by (intro exI [of _ "Suc n"]) simp
  qed
qed

text \<open>
  Claim C7.  A colour that is in the map's colour table is converted to its (first)
  position in the table, plus one when a registration colour entry is exported ahead of
  the map colours; a colour that is not in the table (or a null colour) is converted
  to index 0.  The result is the \<^verbatim>\<open>quint16\<close> the function returns; as a number it is the
  position itself whenever that is below \<open>2^16\<close>.
\<close>

theorem convertColor_table_position:
  "(c \<in> set (map_colors (exp_map e)) \<longrightarrow>
      (\<exists>n < length (map_colors (exp_map e)).
          map_colors (exp_map e) ! n = c \<and> c \<notin> set (take n (map_colors (exp_map e)))
        \<and> convertColor e (Some c)
            = word_of_nat (if uses_registration_color e then n + 1 else n)
        \<and> (n + 1 < 65536 \<longrightarrow>
             unat (convertColor e (Some c)) = (if uses_registration_color e then n + 1 else n))))
   \<and> (c \<notin> set (map_colors (exp_map e)) \<longrightarrow> convertColor e (Some c) = 0)
   \<and> convertColor e None = 0"
proof (intro conjI impI)
  assume "c \<in> set (map_colors (exp_map e))"
  from findColorIndex_from_present [OF this, of 0] obtain n where
    n: "n < length (map_colors (exp_map e))" "map_colors (exp_map e) ! n = c"
       "c \<notin> set (take n (map_colors (exp_map e)))"
       "findColorIndex_from 0 (map_colors (exp_map e)) c = int n" by auto
  have w: "convertColor e (Some c) = word_of_nat (if uses_registration_color e then n + 1 else n)"
    using n(4) by (simp add: convertColor_def findColorIndex_def Let_def)
  have u: "n + 1 < 65536 \<longrightarrow>
             unat (convertColor e (Some c)) = (if uses_registration_color e then n + 1 else n)"
    unfolding w by (simp add: unat_of_nat)
  from n w u show "\<exists>n < length (map_colors (exp_map e)).
          map_colors (exp_map e) ! n = c \<and> c \<notin> set (take n (map_colors (exp_map e)))
        \<and> convertColor e (Some c)
            = word_of_nat (if uses_registration_color e then n + 1 else n)
        \<and> (n + 1 < 65536 \<longrightarrow>
             unat (convertColor e (Some c)) = (if uses_registration_color e then n + 1 else n))"
    by blast
next
  assume "c \<notin> set (map_colors (exp_map e))"
  then show "convertColor e (Some c) = 0"
    by (simp add: convertColor_def findColorIndex_def findColorIndex_from_absent)
next
  show "convertColor e None = 0" by (simp add: convertColor_def findColorIndex_def)
qed

text \<open>
  The theorem on a table of three colours: with the registration colour in front, the
  colour at position 1 gets index 2, and a colour that is not in the table gets 0.
\<close>

theorem convertColor_table_position_witness:
  "(20::nat) \<in> set [10, 20, 30]
   \<and> convertColor ((OcdFileExport (sample_map [10, 20, 30] [] [] []))
                      \<lparr>uses_registration_color := True\<rparr>) (Some 20) = 2
   \<and> (40::nat) \<notin> set [10, 20, 30]
   \<and> convertColor ((OcdFileExport (sample_map [10, 20, 30] [] [] []))
                      \<lparr>uses_registration_color := True\<rparr>) (Some 40) = 0"
  using convertColor_table_position
          [of 20 "(OcdFileExport (sample_map [10, 20, 30] [] [] []))\<lparr>uses_registration_color := True\<rparr>"]
        convertColor_table_position
          [of 40 "(OcdFileExport (sample_map [10, 20, 30] [] [] []))\<lparr>uses_registration_color := True\<rparr>"]
  by (simp add: OcdFileExport_def sample_map_def convertColor_def findColorIndex_def)


section \<open>Pattern sizes\<close>

lemma ba_size_append: "ba_size (a @ b) = ba_size a + ba_size b"
  by (simp add: ba_size_def)

lemma length_exportCoordinates_loop:
  "length (exportCoordinates_loop symbol coords a b c) = length coords"
  by (induction coords arbitrary: a b c) (simp_all add: Let_def)

lemma ba_size_points: "ba_size (map PointChunk ps) = sizeof_OcdPoint32 * length ps"
  by (induction ps) (simp_all add: ba_size_def)

lemma exportCoordinates_size:
  "ba_size (snd (exportCoordinates coords symbol ba)) = ba_size ba + 8 * length coords"
  by (simp add: exportCoordinates_def ba_size_append ba_size_points
        length_exportCoordinates_loop sizeof_OcdPoint32_def)

lemma ba_size_Nil: "ba_size [] = 0"
  by (simp add: ba_size_def)

lemma ba_size_Cons: "ba_size (c # cs) = chunk_size c + ba_size cs"
  by (simp add: ba_size_def)

lemma appendElement_size:
  "ba_size (snd (appendElement element coords symbol acc))
     = ba_size (snd acc) + 8 * (2 + length coords)"
  by (simp add: appendElement_def Let_def ba_size_append ba_size_Cons ba_size_Nil
        exportCoordinates_size sizeof_Element_def sizeof_OcdPoint32_def)

lemma exportSubPattern_size:
  assumes "pattern_symbol_ok s"
  shows "\<exists>r. exportSubPattern e coords s ba = Inr r
           \<and> int (ba_size (snd r))
               = int (ba_size ba) + 8 * (pattern_factor s * (2 + int (length coords)))"
proof (cases s)
  case (PointSym p)
  then show ?thesis
    by (simp add: Let_def appendElement_size)
next
  case (LineSym l)
  then show ?thesis by (simp add: Let_def appendElement_size)
next
  case (AreaSym a)
  then show ?thesis by (simp add: Let_def appendElement_size)
next
  case (TextSym t)
  with assms show ?thesis by (simp add: pattern_symbol_ok_def)
next
  case (CombinedSym c)
  with assms show ?thesis by (simp add: pattern_symbol_ok_def)
qed

lemma getPatternSize_count_shift:
  "getPatternSize_count els c = c + getPatternSize_count els 0"
proof (induction els arbitrary: c)
  case Nil
  show ?case by simp
next
  case (Cons x els)
  obtain s cs where x: "x = (s, cs)" by (cases x)
  show ?case
    using Cons.IH [of "c + pattern_factor s * (2 + int (length cs))"]
          Cons.IH [of "pattern_factor s * (2 + int (length cs))"]
    by (simp add: x)
qed

lemma exportPattern_elements_size:
  assumes "\<forall>x \<in> set els. pattern_symbol_ok (fst x)"
  shows "\<exists>r. exportPattern_elements e els acc = Inr r
           \<and> int (ba_size (snd r))
               = int (ba_size (snd acc)) + 8 * getPatternSize_count els 0"
  using assms
proof (induction els arbitrary: acc)
  case Nil
  show ?case by simp
next
  case (Cons x els)
  obtain s cs where x: "x = (s, cs)" by (cases x)
  from Cons.prems x have ok: "pattern_symbol_ok s" by simp
  from exportSubPattern_size [OF ok, of e cs "snd acc"] obtain r where
    r: "exportSubPattern e cs s (snd acc) = Inr r"
       "int (ba_size (snd r))
          = int (ba_size (snd acc)) + 8 * (pattern_factor s * (2 + int (length cs)))"
    by blast
  from Cons.prems have "\<forall>x \<in> set els. pattern_symbol_ok (fst x)" by simp
  from Cons.IH [OF this, of "(fst acc + fst r, snd r)"] obtain r' where
    r': "exportPattern_elements e els (fst acc + fst r, snd r) = Inr r'"
        "int (ba_size (snd r')) = int (ba_size (snd r)) + 8 * getPatternSize_count els 0"
    by auto
  have "getPatternSize_count (x # els) 0
          = pattern_factor s * (2 + int (length cs)) + getPatternSize_count els 0"
    using getPatternSize_count_shift [of els "pattern_factor s * (2 + int (length cs))"]
    by (simp add: x)
  with r r' show ?case by (simp add: x)
qed

lemma exportPattern_size:
  assumes "\<forall>x \<in> set (point_elements p). pattern_symbol_ok (fst x)"
  shows "\<exists>r. exportPattern e (Some p) ba = Inr r
           \<and> int (ba_size (snd r)) = int (ba_size ba) + getPatternSize (Some p)"
proof -
  have ok: "pattern_symbol_ok (PointSym p)" by (simp add: pattern_symbol_ok_def)
  from exportSubPattern_size [OF ok, of e default_coords ba] obtain r0 where
    r0: "exportSubPattern e default_coords (PointSym p) ba = Inr r0"
        "int (ba_size (snd r0))
           = int (ba_size ba) + 8 * (pattern_factor (PointSym p) * (2 + int (length default_coords)))"
    by blast
  from exportPattern_elements_size [OF assms, of e r0] obtain r where
    r: "exportPattern_elements e (point_elements p) r0 = Inr r"
       "int (ba_size (snd r)) = int (ba_size (snd r0)) + 8 * getPatternSize_count (point_elements p) 0"
    by blast
  have "exportPattern e (Some p) ba = Inr r" using r0 r by simp
  moreover have "int (ba_size (snd r)) = int (ba_size ba) + getPatternSize (Some p)"
    using r0(2) r(2)
    by (simp add: Let_def default_coords_def sizeof_OcdPoint32_def)
  ultimately show ?thesis by blast
qed

lemma getPatternSize_multiple: "8 * (getPatternSize p div 8) = getPatternSize p"
  by (cases p) (simp_all add: Let_def sizeof_OcdPoint32_def)

text \<open>
  Claim C2.  For a point symbol whose element symbols are point, line or area symbols
  (the cases \<^verbatim>\<open>exportSubPattern\<close> handles), in every format and version: \<^verbatim>\<open>exportPattern\<close>
  returns, and the bytes it appends are exactly \<^verbatim>\<open>getPatternSize\<close>; \<^verbatim>\<open>exportPointSymbol\<close>
  returns a record whose byte length is the header size plus that pattern size, which
  is the value of its size field, and whose data size field is the pattern size in
  units of 8 bytes.
\<close>

theorem point_symbol_record_size:
  assumes "list_all (\<lambda>x. pattern_symbol_ok (fst x)) (point_elements p)"
  shows "(\<exists>n ba'. exportPattern e (Some p) ba = Inr (n, ba')
            \<and> int (ba_size ba') = int (ba_size ba) + getPatternSize (Some p))
       \<and> (\<exists>r e'. exportPointSymbol fmt p e = Inr (r, e')
            \<and> int (ba_size (rec_data r)) = int (point_header_size fmt) + getPatternSize (Some p)
            \<and> rec_size r = int (point_header_size fmt) + getPatternSize (Some p)
            \<and> 8 * rec_data_size r = getPatternSize (Some p))"
proof
  from assms have ok: "\<forall>x \<in> set (point_elements p). pattern_symbol_ok (fst x)"
    by (simp add: list_all_iff)
  from exportPattern_size [OF ok, of e ba]
  show "\<exists>n ba'. exportPattern e (Some p) ba = Inr (n, ba')
            \<and> int (ba_size ba') = int (ba_size ba) + getPatternSize (Some p)"
    by (metis prod.collapse)
next
  from assms have ok: "\<forall>x \<in> set (point_elements p). pattern_symbol_ok (fst x)"
    by (simp add: list_all_iff)
  let ?e1 = "snd (setupBaseSymbol fmt (point_base p) e)"
  from exportPattern_size [OF ok, of ?e1 "[Struct (point_header_size fmt)]"] obtain r where
    r: "exportPattern ?e1 (Some p) [Struct (point_header_size fmt)] = Inr r"
       "int (ba_size (snd r))
          = int (ba_size [Struct (point_header_size fmt)]) + getPatternSize (Some p)"
    by blast
  have h: "ba_size [Struct (point_header_size fmt)] = point_header_size fmt"
    by (simp add: ba_size_def)
  show "\<exists>r e'. exportPointSymbol fmt p e = Inr (r, e')
            \<and> int (ba_size (rec_data r)) = int (point_header_size fmt) + getPatternSize (Some p)
            \<and> rec_size r = int (point_header_size fmt) + getPatternSize (Some p)
            \<and> 8 * rec_data_size r = getPatternSize (Some p)"
    using r h getPatternSize_multiple [of "Some p"]
    by (simp add: exportPointSymbol_def Let_def new_symbol_def)
qed

lemma sample_point_elements_ok:
  "list_all (\<lambda>x. pattern_symbol_ok (fst x)) (point_elements sample_point)"
  by (simp add: sample_point_def pattern_symbol_ok_def)

lemma sample_point_pattern_size: "getPatternSize (Some sample_point) = 56"
  by code_simp

text \<open>
  The theorem at the sample point symbol (a dot and a line element of two
  coordinates): the pattern takes 56 bytes after the 576 bytes of the sample header.
\<close>

theorem point_symbol_record_size_witness:
  "list_all (\<lambda>x. pattern_symbol_ok (fst x)) (point_elements sample_point)
   \<and> (\<exists>r e'. exportPointSymbol (sample_layout FormatV9) sample_point
                (OcdFileExport colliding_map) = Inr (r, e')
          \<and> ba_size (rec_data r) = 632 \<and> rec_size r = 632 \<and> rec_data_size r = 7)"
proof -
  have h: "point_header_size (sample_layout FormatV9) = 576"
    by (simp add: sample_layout_def)
  from point_symbol_record_size
         [OF sample_point_elements_ok, of "OcdFileExport colliding_map" "[]"
            "sample_layout FormatV9"]
  obtain r e' where
    r: "exportPointSymbol (sample_layout FormatV9) sample_point
          (OcdFileExport colliding_map) = Inr (r, e')"
       "int (ba_size (rec_data r))
          = int (point_header_size (sample_layout FormatV9)) + getPatternSize (Some sample_point)"
       "rec_size r
          = int (point_header_size (sample_layout FormatV9)) + getPatternSize (Some sample_point)"
       "8 * rec_data_size r = getPatternSize (Some sample_point)"
    by blast
  from r(2,3,4) have "ba_size (rec_data r) = 632 \<and> rec_size r = 632 \<and> rec_data_size r = 7"
    unfolding h sample_point_pattern_size by simp
  with r(1) sample_point_elements_ok show ?thesis by blast
qed


section \<open>Symbol numbers of a text symbol with two alignments\<close>

text \<open>
  Claim C3, evaluated where it fails.  In \<open>colliding_map\<close> a text symbol numbered 5.0 is
  used with two alignments and is followed by a point symbol numbered 5.0 as well.
  Exported to version 9, the two text records get the numbers 5000 and 5001; the second
  call of \<^verbatim>\<open>setupBaseSymbol\<close> for the text symbol overwrites its entry in
  \<^verbatim>\<open>symbol_numbers\<close>, so 5000 is no longer found there and the point symbol gets 5000
  again.
\<close>

theorem colliding_symbol_numbers:
  "(case doExport sample_layout Inr 9 (OcdFileExport colliding_map) of
      Inr e \<Rightarrow> map rec_number (file_symbols (hd (stream e)))
    | Inl f \<Rightarrow> [])
   = [5000, 5001, 5000]"
  by code_simp


section \<open>The stages of the export\<close>

lemma fold_addWarning: "fold addWarning ws e = e\<lparr>warnings := warnings e @ ws\<rparr>"
  by (induction ws arbitrary: e) (simp_all add: addWarning_def)

lemma exportSetupV8_notes_fields:
  "exp_map (exportSetupV8_notes e) = exp_map e"
  "stream (exportSetupV8_notes e) = stream e"
  "uses_registration_color (exportSetupV8_notes e) = uses_registration_color e"
  "warnings (exportSetupV8_notes e) = warnings e"
  by (simp_all add: exportSetupV8_notes_def Let_def set_file_def)

lemma exportImplementation_alt:
  "exportImplementation fmt v e =
     (case exportSetup fmt (before_setup fmt v e) of
           Inl err \<Rightarrow> Inl err
         | Inr e \<Rightarrow>
        (case exportSymbols fmt e of
           Inl err \<Rightarrow> Inl err
         | Inr e \<Rightarrow>
        (case exportObjects fmt e of
           Inl err \<Rightarrow> Inl err
         | Inr e \<Rightarrow> Inr (e\<lparr>stream := stream e @ [out_file e]\<rparr>))))"
  by (simp add: exportImplementation_def before_setup_def Let_def)

lemma before_setup_fields:
  "exp_map (before_setup fmt v e) = exp_map e"
  "stream (before_setup fmt v e) = stream e"
  "ocd_version (before_setup fmt v e) = v"
  "uses_registration_color (before_setup fmt v e) = registration_color_used (exp_map e)"
  "symbol_numbers (before_setup fmt v e) = symbol_numbers e"
  "byteArray (out_file (before_setup fmt v e)) = [Struct (file_header_size fmt)]"
  "header_version (out_file (before_setup fmt v e)) = v"
  "\<exists>ws. warnings (before_setup fmt v e)
          = warnings e @ ''OcdFileExport: WORK IN PROGRESS, FILE INCOMPLETE'' # ws"
  by (simp_all add: before_setup_def Let_def determineEncoding_def calculateAreaOffset_def
        set_file_def addWarning_def fold_addWarning new_file_def
        setupFileHeaderGeneric_def)

text \<open>
  Claim C4.  An export to version 8 of a map with more than 256 colours, or more than 255
  when the registration colour is exported as an additional entry, ends with a
  \<^verbatim>\<open>FileFormatException\<close>, and the output device has received nothing.  The version 8 is
  the requested one; the layout is any layout whose version 8 format carries the version
  8 tag.
\<close>

theorem version8_color_limit_fatal:
  assumes "fmt_tag (layout FormatV8) = FormatV8"
      and "length (map_colors (exp_map e))
             > (if registration_color_used (exp_map e) then 255 else 256)"
  shows "\<exists>msg e'. doExport layout legacy 8 e = Inl (FileFormatException msg, e')
           \<and> stream e' = stream e"
  using assms
  by (simp add: doExport_def exportImplementation_alt exportSetup_def exportSetupV8_def
        exportSetupV8_colors_def Let_def exportSetupV8_notes_fields before_setup_fields)

theorem version8_color_limit_fatal_witness:
  "fmt_tag (sample_layout FormatV8) = FormatV8
   \<and> length (map_colors (exp_map (OcdFileExport many_colors_map)))
       > (if registration_color_used (exp_map (OcdFileExport many_colors_map)) then 255 else 256)
   \<and> (\<exists>msg e'. doExport sample_layout Inr 8 (OcdFileExport many_colors_map)
                   = Inl (FileFormatException msg, e')
               \<and> stream e' = stream (OcdFileExport many_colors_map))"
  using version8_color_limit_fatal
          [where layout = sample_layout and e = "OcdFileExport many_colors_map" and legacy = Inr]
  by (simp add: sample_layout_def OcdFileExport_def many_colors_map_def sample_map_def)

section \<open>Combinations that are not exported\<close>

lemma dropped_here: "dropped_with_warning c e (unhandled_combined_symbol c e)"
  by (simp add: dropped_with_warning_def unhandled_combined_symbol_def addWarning_def)

lemma dropped_after_duplicate:
  "dropped_with_warning c e (unhandled_combined_symbol c (snd (make_duplicate c p e)))"
  by (simp add: dropped_with_warning_def unhandled_combined_symbol_def addWarning_def
        make_duplicate_def)

lemma combined_single_dropped:
  assumes "part_type_ok p" and "\<not> supported_combination v [p]"
  shows "\<exists>e'. combined_single fmt c p e = Inr e' \<and> dropped_with_warning c e e'"
proof (cases p)
  case (CombinedSym x)
  then obtain b ps where x: "x = CombinedSymbol b ps" by (cases x) auto
  show ?thesis
    using dropped_after_duplicate [of c e p]
    by (simp add: combined_single_def Let_def CombinedSym x make_duplicate_def)
qed (use assms in \<open>simp_all add: part_type_ok_def\<close>)

lemma set_base_line:
  "set_base b (LineSym l) = LineSym (LineSymbol b (line_fields l) (getStartSymbol l)
      (getMidSymbol l) (getEndSymbol l) (getDashSymbol l))"
  by (cases l) simp

lemma combined_lines_dropped2:
  assumes "\<not> consistent_assignment [l0, l1]"
  shows "\<exists>e'. combined_lines fmt c l0 l1 None e = Inr e' \<and> dropped_with_warning c e e'"
  using assms dropped_here [of c e]
  by (simp add: combined_lines_def arrange_lines_def Let_def)

lemma combined_lines_dropped3:
  assumes "\<not> consistent_assignment [l0, l1, l2]"
  shows "\<exists>e'. combined_lines fmt c l0 l1 (Some l2) e = Inr e' \<and> dropped_with_warning c e e'"
  using assms dropped_here [of c e] dropped_after_duplicate [of c e]
  by (auto simp add: combined_lines_def arrange_lines_def Let_def line_roles_def
        make_duplicate_def set_base_line)


lemma combined_multi_dropped2:
  assumes "\<not> supported_combination (ocd_version e) [p, q]"
  shows "\<exists>e'. combined_multi fmt c p q None e = Inr e' \<and> dropped_with_warning c e e'"
proof -
  note d = dropped_here [of c e]
  show ?thesis
  proof (cases p)
    case (LineSym l0)
    show ?thesis
    proof (cases q)
      case (LineSym l1)
      with \<open>p = LineSym l0\<close> assms have "\<not> consistent_assignment [l0, l1]" by simp
      from combined_lines_dropped2 [OF this, of fmt c e]
      show ?thesis using \<open>p = LineSym l0\<close> LineSym by (simp add: combined_multi_def)
    qed (use assms d LineSym in \<open>auto simp add: combined_multi_def\<close>)
  next
    case (AreaSym a)
    show ?thesis
      by (cases q) (use assms d AreaSym in \<open>auto simp add: combined_multi_def\<close>)
  next
    case (PointSym x)
    show ?thesis
      by (cases q) (use assms d PointSym in \<open>auto simp add: combined_multi_def\<close>)
  next
    case (TextSym x)
    show ?thesis
      by (cases q) (use assms d TextSym in \<open>auto simp add: combined_multi_def\<close>)
  next
    case (CombinedSym x)
    show ?thesis
      by (cases q) (use assms d CombinedSym in \<open>auto simp add: combined_multi_def\<close>)
  qed
qed

lemma combined_multi_dropped3:
  assumes "\<not> supported_combination (ocd_version e) [p, q, r]"
  shows "\<exists>e'. combined_multi fmt c p q (Some r) e = Inr e' \<and> dropped_with_warning c e e'"
proof -
  note d = dropped_here [of c e]
  show ?thesis
  proof (cases p)
    case (LineSym l0)
    show ?thesis
    proof (cases q)
      case (LineSym l1)
      show ?thesis
      proof (cases r)
        case (LineSym l2)
        with \<open>p = LineSym l0\<close> \<open>q = LineSym l1\<close> assms
        have "\<not> consistent_assignment [l0, l1, l2]" by simp
        from combined_lines_dropped3 [OF this, of fmt c e]
        show ?thesis using \<open>p = LineSym l0\<close> \<open>q = LineSym l1\<close> LineSym
          by (simp add: combined_multi_def)
      qed (use d \<open>p = LineSym l0\<close> \<open>q = LineSym l1\<close> in \<open>auto simp add: combined_multi_def\<close>)
    qed (use d LineSym in \<open>auto simp add: combined_multi_def\<close>)
  next
    case (AreaSym a)
    show ?thesis
      by (cases q) (use d AreaSym in \<open>auto simp add: combined_multi_def\<close>)
  next
    case (PointSym x)
    show ?thesis
      by (cases q) (use d PointSym in \<open>auto simp add: combined_multi_def\<close>)
  next
    case (TextSym x)
    show ?thesis
      by (cases q) (use d TextSym in \<open>auto simp add: combined_multi_def\<close>)
  next
    case (CombinedSym x)
    show ?thesis
      by (cases q) (use d CombinedSym in \<open>auto simp add: combined_multi_def\<close>)
  qed
qed

text \<open>
  Claim C6.  For a combined symbol whose non-null parts match none of the supported cases
  (one area or line part; an area with a border line from version 9 on; two or three
  line parts with a consistent assignment of roles), \<^verbatim>\<open>exportCombinedSymbol\<close> returns
  normally, appends the warning \<open>Unhandled combined symbol: \<close> followed by the name,
  inserts no symbol record and assigns no number; \<^verbatim>\<open>exportSymbols\<close> then goes on with
  the remaining symbols.  The parts are line, area or combined symbols.
\<close>

theorem unsupported_combination_dropped:
  assumes "list_all part_type_ok (nonnull_parts (combined_parts c))"
      and "\<not> supported_combination (ocd_version e) (nonnull_parts (combined_parts c))"
  shows "\<exists>e'. exportCombinedSymbol fmt c e = Inr e' \<and> dropped_with_warning c e e'
           \<and> (symbol_numbers_find e (sym_key (combined_base c)) = None \<longrightarrow>
                exportSymbols_loop fmt (CombinedSym c # rest) e = exportSymbols_loop fmt rest e')"
proof -
  have "\<exists>e'. exportCombinedSymbol fmt c e = Inr e' \<and> dropped_with_warning c e e'"
  proof (cases "nonnull_parts (combined_parts c)")
    case Nil
    then show ?thesis using dropped_here [of c e] by (simp add: exportCombinedSymbol_def)
  next
    case (Cons p ps)
    note c1 = Cons
    show ?thesis
    proof (cases ps)
      case Nil
      with c1 assms have "part_type_ok p" "\<not> supported_combination (ocd_version e) [p]"
        by simp_all
      from combined_single_dropped [OF this, of fmt c e]
      show ?thesis using c1 Nil by (simp add: exportCombinedSymbol_def)
    next
      case (Cons q qs)
      note c2 = Cons
      show ?thesis
      proof (cases qs)
        case Nil
        with c1 c2 assms have "\<not> supported_combination (ocd_version e) [p, q]" by simp
        from combined_multi_dropped2 [OF this, of fmt c]
        show ?thesis using c1 c2 Nil by (simp add: exportCombinedSymbol_def)
      next
        case (Cons r rs)
        note c3 = Cons
        show ?thesis
        proof (cases rs)
          case Nil
          with c1 c2 c3 assms have "\<not> supported_combination (ocd_version e) [p, q, r]"
            by simp
          from combined_multi_dropped3 [OF this, of fmt c]
          show ?thesis using c1 c2 c3 Nil by (simp add: exportCombinedSymbol_def)
        next
          case (Cons t ts)
          then show ?thesis using c1 c2 c3 dropped_here [of c e]
            by (simp add: exportCombinedSymbol_def)
        qed
      qed
    qed
  qed
  then obtain e' where e': "exportCombinedSymbol fmt c e = Inr e'" "dropped_with_warning c e e'"
    by blast
  have "symbol_numbers_find e (sym_key (combined_base c)) = None \<longrightarrow>
          exportSymbols_loop fmt (CombinedSym c # rest) e = exportSymbols_loop fmt rest e'"
    using e'(1) by (simp add: exportSymbol_def key_of_def)
  with e' show ?thesis by (intro exI [of _ e']) simp
qed

theorem unsupported_combination_dropped_witness:
  "list_all part_type_ok (nonnull_parts (combined_parts sample_combined))
   \<and> \<not> supported_combination (ocd_version ((OcdFileExport undecomposed_map)\<lparr>ocd_version := 9\<rparr>))
          (nonnull_parts (combined_parts sample_combined))
   \<and> (\<exists>e'. exportCombinedSymbol (sample_layout FormatV9) sample_combined
               ((OcdFileExport undecomposed_map)\<lparr>ocd_version := 9\<rparr>) = Inr e'
           \<and> dropped_with_warning sample_combined
               ((OcdFileExport undecomposed_map)\<lparr>ocd_version := 9\<rparr>) e')"
proof -
  have a: "list_all part_type_ok (nonnull_parts (combined_parts sample_combined))"
    by code_simp
  have b: "\<not> supported_combination
               (ocd_version ((OcdFileExport undecomposed_map)\<lparr>ocd_version := 9\<rparr>))
               (nonnull_parts (combined_parts sample_combined))"
    by code_simp
  from unsupported_combination_dropped [OF a b, of "sample_layout FormatV9" "[]"] a b
  show ?thesis by blast
qed

section \<open>The object encoder\<close>













section \<open>The notes of a version 8 file\<close>


section \<open>Symbol numbers of the objects\<close>

text \<open>
  Claim C5, evaluated where it fails.  In \<open>undecomposed_map\<close> a path object is drawn with
  a combined symbol of two dashed lines, which \<^verbatim>\<open>exportCombinedSymbol\<close> leaves without a
  record and without a number.  After \<^verbatim>\<open>exportSymbols\<close>, when the object is encoded, the
  symbol has no entry in \<^verbatim>\<open>symbol_numbers\<close>.  The lookup \<^verbatim>\<open>symbol_numbers[path->getSymbol()]\<close>
  enters it with the number \<open>0\<close>, which \<^verbatim>\<open>setupBaseSymbol\<close> never assigns
  (\<^verbatim>\<open>// Symbol number 0.0 is not valid\<close>): the object record of the exported file carries
  the symbol number \<open>0\<close>, and the file has no symbol record.
\<close>

theorem undecomposed_symbol_object_number:
  "(case exportSetup (sample_layout FormatV9)
           (before_setup (sample_layout FormatV9) 9 (OcdFileExport undecomposed_map)) of
      Inl err \<Rightarrow> None
    | Inr e0 \<Rightarrow>
   (case exportSymbols (sample_layout FormatV9) e0 of
      Inl err \<Rightarrow> None
    | Inr e1 \<Rightarrow>
   (case exportObjects (sample_layout FormatV9) e1 of
      Inl err \<Rightarrow> None
    | Inr e2 \<Rightarrow>
        Some (map (\<lambda>object. symbol_numbers_find e1 (object_key object))
                (concat (map_parts (exp_map e1))),
              map rec_number (file_symbols (out_file e2)),
              map (\<lambda>x. entry_symbol (snd x)) (file_objects (out_file e2))))))
   = Some ([None], [], [0])
   \<and> (case doExport sample_layout Inr 9 (OcdFileExport undecomposed_map) of
      Inl err \<Rightarrow> None
    | Inr e \<Rightarrow>
        Some (map (\<lambda>f. (map rec_number (file_symbols f),
                         map (\<lambda>x. entry_symbol (snd x)) (file_objects f))) (stream e),
              symbol_numbers e, warnings e))
   = Some ([([], [0])], [(Original 3, 0)],
           [''OcdFileExport: WORK IN PROGRESS, FILE INCOMPLETE'',
            ''Spot color information was ignored.'',
            ''Unhandled combined symbol: C''])"
  by code_simp

end
